theory Spec2Isabelle
  imports Complex_Main "HOL-Library.AList" "HOL-Library.Multiset"
begin

section \<open>JavaScript values\<close>

text \<open>
  The module \<^verbatim>\<open>src/lib/db/job-details.ts\<close> passes plain JavaScript objects between its
  caller, the zod schema and the database driver, and several of its properties depend on
  which keys an object has. Objects are therefore association lists from key to value, in
  insertion order. A number is a rational: the finite doubles are rationals, and rounding is
  not modelled (\<open>NaN\<close> and the infinities have no counterpart here).
\<close>

datatype jsval =
    JUndefined
  | JNull
  | JBool bool
  | JNum rat
  | JStr string
  | JArr "jsval list"
  | JObj "(string \<times> jsval) list"

text \<open>The own enumerable properties of a value that is spread into an object literal.\<close>

fun props :: "jsval \<Rightarrow> (string \<times> jsval) list" where
  "props (JObj kvs) = kvs"
| "props _ = []"

text \<open>Property read \<^verbatim>\<open>o.k\<close>: a key that is absent reads as \<^verbatim>\<open>undefined\<close>.\<close>

definition obj_get :: "jsval \<Rightarrow> string \<Rightarrow> jsval" where
  "obj_get v k = (case map_of (props v) k of None \<Rightarrow> JUndefined | Some x \<Rightarrow> x)"

text \<open>
  The object literal \<^verbatim>\<open>{ ...a, ...b }\<close>: the properties of \<open>a\<close>, then each property of
  \<open>b\<close> assigned in order (an existing key keeps its place and takes the new value, a new
  key is appended).
\<close>

definition spread :: "jsval \<Rightarrow> jsval \<Rightarrow> jsval" where
  "spread a b = JObj (fold (\<lambda>(k, v). AList.update k v) (props b) (props a))"

text \<open>Truthiness, as \<^verbatim>\<open>if (x)\<close>, \<^verbatim>\<open>!x\<close> and \<^verbatim>\<open>x || y\<close> test it.\<close>

fun truthy :: "jsval \<Rightarrow> bool" where
  "truthy JUndefined = False"
| "truthy JNull = False"
| "truthy (JBool b) = b"
| "truthy (JNum q) = (q \<noteq> 0)"
| "truthy (JStr s) = (s \<noteq> [])"
| "truthy (JArr _) = True"
| "truthy (JObj _) = True"

section \<open>The zod schemas\<close>

text \<open>
  \<^verbatim>\<open>z.infer<typeof JobDetailsSchema>\<close>: the typed record a successful parse returns. The
  field \<open>id\<close> is written \<open>id'\<close>. An optional field is \<open>None\<close> when the parsed object has
  \<^verbatim>\<open>undefined\<close> there.
\<close>

record VerificationStatus =
  payment :: bool
  phone :: bool
  email :: bool

record ClientHistory =
  jobsPosted :: rat
  hireRate :: rat
  totalSpent :: string
  memberSince :: string
  verificationStatus :: VerificationStatus

record JobDetails =
  id' :: string
  title :: string
  description :: string
  longDescription :: string
  budget :: string
  time_posted :: string
  category :: string
  expertise :: string
  proposals :: rat
  client_rating :: rat
  client_location :: string
  jobType :: string
  project_length :: string
  weeklyHours :: "string option"
  skills :: "string list"
  activityOn :: string
  client_history :: ClientHistory
  attachments :: "string list option"
  questions :: "string list option"

text \<open>
  A zod issue: the path of the offending value and the type the schema expected there.
  A parser returns the issues it found (\<open>Inl\<close>) or the parsed value (\<open>Inr\<close>); zod collects
  the issues of every field of an object before it fails.
\<close>

type_synonym issue = "string list \<times> string"

definition issues_of :: "issue list + 'a \<Rightarrow> issue list" where
  "issues_of r = (case r of Inl es \<Rightarrow> es | Inr _ \<Rightarrow> [])"

definition z_string :: "string list \<Rightarrow> jsval \<Rightarrow> issue list + string" where
  "z_string p v = (case v of JStr s \<Rightarrow> Inr s | _ \<Rightarrow> Inl [(p, ''string'')])"

definition z_number :: "string list \<Rightarrow> jsval \<Rightarrow> issue list + rat" where
  "z_number p v = (case v of JNum q \<Rightarrow> Inr q | _ \<Rightarrow> Inl [(p, ''number'')])"

definition z_boolean :: "string list \<Rightarrow> jsval \<Rightarrow> issue list + bool" where
  "z_boolean p v = (case v of JBool b \<Rightarrow> Inr b | _ \<Rightarrow> Inl [(p, ''boolean'')])"

text \<open>Decimal text of a natural number (array indices in issue paths, \<open>int8\<close> output).\<close>

fun nat_text :: "nat \<Rightarrow> string" where
  "nat_text n =
     (if n < 10 then [char_of (48 + n)]
      else nat_text (n div 10) @ [char_of (48 + n mod 10)])"

declare nat_text.simps [simp del]

text \<open>\<^verbatim>\<open>z.array(z.string())\<close>: every element is checked, at path \<open>p @ [index]\<close>.\<close>

definition z_string_array :: "string list \<Rightarrow> jsval \<Rightarrow> issue list + string list" where
  "z_string_array p v =
     (case v of
        JArr xs \<Rightarrow>
          (let rs = map (\<lambda>(i, x). z_string (p @ [nat_text i]) x) (enumerate 0 xs)
           in if concat (map issues_of rs) = [] then Inr (map projr rs)
              else Inl (concat (map issues_of rs)))
      | _ \<Rightarrow> Inl [(p, ''array'')])"

text \<open>\<^verbatim>\<open>.optional()\<close>: \<^verbatim>\<open>undefined\<close> (also a missing key) is accepted; \<^verbatim>\<open>null\<close> is not.\<close>

definition z_optional ::
  "(string list \<Rightarrow> jsval \<Rightarrow> issue list + 'a) \<Rightarrow> string list \<Rightarrow> jsval \<Rightarrow> issue list + 'a option"
where
  "z_optional f p v =
     (if v = JUndefined then Inr None
      else (case f p v of Inl es \<Rightarrow> Inl es | Inr x \<Rightarrow> Inr (Some x)))"

fun is_object :: "jsval \<Rightarrow> bool" where
  "is_object (JObj _) = True"
| "is_object _ = False"

definition VerificationStatusSchema ::
  "string list \<Rightarrow> jsval \<Rightarrow> issue list + VerificationStatus"
where
  "VerificationStatusSchema p v =
     (if \<not> is_object v then Inl [(p, ''object'')]
      else
        (let r1 = z_boolean (p @ [''payment'']) (obj_get v ''payment'');
             r2 = z_boolean (p @ [''phone'']) (obj_get v ''phone'');
             r3 = z_boolean (p @ [''email'']) (obj_get v ''email'');
             es = issues_of r1 @ issues_of r2 @ issues_of r3
         in if es = [] then Inr \<lparr> payment = projr r1, phone = projr r2, email = projr r3 \<rparr>
            else Inl es))"

definition ClientHistorySchema :: "string list \<Rightarrow> jsval \<Rightarrow> issue list + ClientHistory" where
  "ClientHistorySchema p v =
     (if \<not> is_object v then Inl [(p, ''object'')]
      else
        (let r1 = z_number (p @ [''jobsPosted'']) (obj_get v ''jobsPosted'');
             r2 = z_number (p @ [''hireRate'']) (obj_get v ''hireRate'');
             r3 = z_string (p @ [''totalSpent'']) (obj_get v ''totalSpent'');
             r4 = z_string (p @ [''memberSince'']) (obj_get v ''memberSince'');
             r5 = VerificationStatusSchema (p @ [''verificationStatus''])
                    (obj_get v ''verificationStatus'');
             es = issues_of r1 @ issues_of r2 @ issues_of r3 @ issues_of r4 @ issues_of r5
         in if es = [] then
              Inr \<lparr> jobsPosted = projr r1, hireRate = projr r2, totalSpent = projr r3,
                    memberSince = projr r4, verificationStatus = projr r5 \<rparr>
            else Inl es))"

text \<open>The issues of the nineteen fields of \<^verbatim>\<open>JobDetailsSchema\<close>, in the order of its shape.\<close>

definition JobDetailsSchema_issues :: "jsval \<Rightarrow> issue list" where
  "JobDetailsSchema_issues v =
     issues_of (z_string [''id''] (obj_get v ''id'')) @
     issues_of (z_string [''title''] (obj_get v ''title'')) @
     issues_of (z_string [''description''] (obj_get v ''description'')) @
     issues_of (z_string [''longDescription''] (obj_get v ''longDescription'')) @
     issues_of (z_string [''budget''] (obj_get v ''budget'')) @
     issues_of (z_string [''time_posted''] (obj_get v ''time_posted'')) @
     issues_of (z_string [''category''] (obj_get v ''category'')) @
     issues_of (z_string [''expertise''] (obj_get v ''expertise'')) @
     issues_of (z_number [''proposals''] (obj_get v ''proposals'')) @
     issues_of (z_number [''client_rating''] (obj_get v ''client_rating'')) @
     issues_of (z_string [''client_location''] (obj_get v ''client_location'')) @
     issues_of (z_string [''jobType''] (obj_get v ''jobType'')) @
     issues_of (z_string [''project_length''] (obj_get v ''project_length'')) @
     issues_of (z_optional z_string [''weeklyHours''] (obj_get v ''weeklyHours'')) @
     issues_of (z_string_array [''skills''] (obj_get v ''skills'')) @
     issues_of (z_string [''activityOn''] (obj_get v ''activityOn'')) @
     issues_of (ClientHistorySchema [''client_history''] (obj_get v ''client_history'')) @
     issues_of (z_optional z_string_array [''attachments''] (obj_get v ''attachments'')) @
     issues_of (z_optional z_string_array [''questions''] (obj_get v ''questions''))"

text \<open>The object a successful parse returns: the schema's keys only.\<close>

definition JobDetailsSchema_value :: "jsval \<Rightarrow> JobDetails" where
  "JobDetailsSchema_value v =
     \<lparr> id' = projr (z_string [''id''] (obj_get v ''id'')),
       title = projr (z_string [''title''] (obj_get v ''title'')),
       description = projr (z_string [''description''] (obj_get v ''description'')),
       longDescription = projr (z_string [''longDescription''] (obj_get v ''longDescription'')),
       budget = projr (z_string [''budget''] (obj_get v ''budget'')),
       time_posted = projr (z_string [''time_posted''] (obj_get v ''time_posted'')),
       category = projr (z_string [''category''] (obj_get v ''category'')),
       expertise = projr (z_string [''expertise''] (obj_get v ''expertise'')),
       proposals = projr (z_number [''proposals''] (obj_get v ''proposals'')),
       client_rating = projr (z_number [''client_rating''] (obj_get v ''client_rating'')),
       client_location = projr (z_string [''client_location''] (obj_get v ''client_location'')),
       jobType = projr (z_string [''jobType''] (obj_get v ''jobType'')),
       project_length = projr (z_string [''project_length''] (obj_get v ''project_length'')),
       weeklyHours = projr (z_optional z_string [''weeklyHours''] (obj_get v ''weeklyHours'')),
       skills = projr (z_string_array [''skills''] (obj_get v ''skills'')),
       activityOn = projr (z_string [''activityOn''] (obj_get v ''activityOn'')),
       client_history =
         projr (ClientHistorySchema [''client_history''] (obj_get v ''client_history'')),
       attachments =
         projr (z_optional z_string_array [''attachments''] (obj_get v ''attachments'')),
       questions =
         projr (z_optional z_string_array [''questions''] (obj_get v ''questions'')) \<rparr>"

text \<open>
  \<^verbatim>\<open>JobDetailsSchema.parse(x)\<close>: \<open>Inl\<close> is the thrown \<^verbatim>\<open>ZodError\<close> with its issues.
  A value that is not an object is one issue at the root.
\<close>

definition JobDetailsSchema_parse :: "jsval \<Rightarrow> issue list + JobDetails" where
  "JobDetailsSchema_parse v =
     (if \<not> is_object v then Inl [([], ''object'')]
      else if JobDetailsSchema_issues v = [] then Inr (JobDetailsSchema_value v)
      else Inl (JobDetailsSchema_issues v))"

section \<open>The database\<close>

text \<open>
  The module talks to PostgreSQL through \<^verbatim>\<open>pool.query(text, values)\<close>. The engine and the
  driver are not part of the repository; what follows is the behaviour of the six statements
  the module sends, on the table that \<^verbatim>\<open>initializeTable\<close> creates. One call of
  \<^verbatim>\<open>pool.query\<close> is one atomic step, and the connection itself never fails.

  A string stands for the UTF-8 text that the driver sends for it. A bound parameter is
  represented by the JavaScript value the driver serialises; the text that
  \<^verbatim>\<open>JSON.stringify\<close> produces is represented by the value it encodes (\<open>SqlJson\<close>), so
  the key order and the number format of the stored \<open>jsonb\<close> are not modelled.
\<close>

datatype sqlval =
    SqlNull
  | SqlText string
  | SqlNumber rat
  | SqlTextArray "string list"
  | SqlJson jsval

text \<open>One row of \<^verbatim>\<open>job_details\<close>, column by column as \<^verbatim>\<open>CREATE TABLE\<close> declares them.\<close>

record row =
  col_id :: string
  col_title :: string
  col_description :: string
  col_long_description :: string
  col_budget :: string
  col_time_posted :: string
  col_category :: string
  col_expertise :: string
  col_proposals :: int
  col_client_rating :: rat
  col_client_location :: string
  col_job_type :: string
  col_project_length :: string
  col_weekly_hours :: "string option"
  col_skills :: "string list"
  col_activity_on :: string
  col_client_history :: jsval
  col_attachments :: "string list option"
  col_questions :: "string list option"

text \<open>
  The errors of the engine that the statements of the module can meet, by the name of
  their SQLSTATE (\<open>CharacterNotInRepertoire\<close> is 22021, \<open>UntranslatableCharacter\<close> is
  22P05).
\<close>

datatype db_error =
    UndefinedTable
  | ProtocolViolation
  | DatatypeMismatch
  | CharacterNotInRepertoire
  | UntranslatableCharacter
  | InvalidTextRepresentation
  | NumericValueOutOfRange
  | NotNullViolation
  | UniqueViolation
  | InvalidRowCountInLimitClause
  | InvalidRowCountInResultOffsetClause

text \<open>
  What the engine is free to choose, or what depends on its configuration: the \<open>ILIKE\<close>
  operator (text, then pattern), the order \<^verbatim>\<open>ORDER BY time_posted DESC\<close> gives to the rows
  of one execution (collation, and the order among equal keys), and the text of a
  \<open>NUMERIC\<close> value.
\<close>

record engine =
  ilike :: "string \<Rightarrow> string \<Rightarrow> bool"
  order_by_time_posted_desc :: "row list \<Rightarrow> row list"
  numeric_out :: "rat \<Rightarrow> string"

definition bind_err :: "'e + 'a \<Rightarrow> ('a \<Rightarrow> 'e + 'b) \<Rightarrow> 'e + 'b" where
  "bind_err r f = (case r of Inl e \<Rightarrow> Inl e | Inr x \<Rightarrow> f x)"

subsection \<open>Input conversion of the bound parameters\<close>

text \<open>
  The driver sends \<^verbatim>\<open>undefined\<close> and \<^verbatim>\<open>null\<close> as \<open>NULL\<close> and everything else as text.
  When the statement is bound, the engine reads every parameter, in the order of the
  placeholders, with the input function of the type it stands for, and the first one that
  fails is the error of the statement. Parameters of a shape the module never sends for a
  type are refused with \<open>DatatypeMismatch\<close>.

  A text must not contain the character U+0000, which PostgreSQL does not store.
\<close>

definition valid_text :: "string \<Rightarrow> bool" where
  "valid_text s = (CHR 0x00 \<notin> set s)"

definition text_in :: "sqlval \<Rightarrow> db_error + string option" where
  "text_in p =
     (case p of
        SqlNull \<Rightarrow> Inr None
      | SqlText s \<Rightarrow> if valid_text s then Inr (Some s) else Inl CharacterNotInRepertoire
      | _ \<Rightarrow> Inl DatatypeMismatch)"

text \<open>The driver sends an array as one array literal, which is a text.\<close>

definition text_array_in :: "sqlval \<Rightarrow> db_error + string list option" where
  "text_array_in p =
     (case p of
        SqlNull \<Rightarrow> Inr None
      | SqlTextArray xs \<Rightarrow>
          if list_all valid_text xs then Inr (Some xs) else Inl CharacterNotInRepertoire
      | _ \<Rightarrow> Inl DatatypeMismatch)"

text \<open>
  \<^verbatim>\<open>JSON.stringify\<close> writes U+0000 as the escape \<^verbatim>\<open>\u0000\<close>, which \<open>jsonb\<close> refuses, in a
  string as in a key.
\<close>

fun json_text_ok :: "jsval \<Rightarrow> bool" where
  "json_text_ok (JStr s) = valid_text s"
| "json_text_ok (JArr xs) = list_all json_text_ok xs"
| "json_text_ok (JObj kvs) = list_all (\<lambda>kv. valid_text (fst kv) \<and> json_text_ok (snd kv)) kvs"
| "json_text_ok _ = True"

definition jsonb_in :: "sqlval \<Rightarrow> db_error + jsval option" where
  "jsonb_in p =
     (case p of
        SqlNull \<Rightarrow> Inr None
      | SqlJson v \<Rightarrow> if json_text_ok v then Inr (Some v) else Inl UntranslatableCharacter
      | _ \<Rightarrow> Inl DatatypeMismatch)"

definition numeric_in :: "sqlval \<Rightarrow> db_error + rat option" where
  "numeric_in p = (case p of SqlNull \<Rightarrow> Inr None | SqlNumber q \<Rightarrow> Inr (Some q)
                   | _ \<Rightarrow> Inl DatatypeMismatch)"

text \<open>
  An integer type reads the decimal text of the number: a number with a fraction, or one
  that JavaScript prints with an exponent (from \<open>10^21\<close> on), is a syntax error, an integer
  outside the type's range is out of range.
\<close>

definition integer_in :: "int \<Rightarrow> int \<Rightarrow> sqlval \<Rightarrow> db_error + int option" where
  "integer_in lo hi p =
     (case p of
        SqlNull \<Rightarrow> Inr None
      | SqlNumber q \<Rightarrow>
          if q \<noteq> of_int \<lfloor>q\<rfloor> \<or> 10 ^ 21 \<le> \<bar>\<lfloor>q\<rfloor>\<bar> then Inl InvalidTextRepresentation
          else if \<lfloor>q\<rfloor> < lo \<or> hi < \<lfloor>q\<rfloor> then Inl NumericValueOutOfRange
          else Inr (Some \<lfloor>q\<rfloor>)
      | _ \<Rightarrow> Inl DatatypeMismatch)"

definition int4_in :: "sqlval \<Rightarrow> db_error + int option" where
  "int4_in = integer_in (- 2147483648) 2147483647"

definition int8_in :: "sqlval \<Rightarrow> db_error + int option" where
  "int8_in = integer_in (- 9223372036854775808) 9223372036854775807"

text \<open>A \<open>NOT NULL\<close> column, checked when a row is written.\<close>

definition not_null :: "'a option \<Rightarrow> db_error + 'a" where
  "not_null x = (case x of None \<Rightarrow> Inl NotNullViolation | Some y \<Rightarrow> Inr y)"

text \<open>
  The eighteen parameters of the columns after \<open>id\<close>, in the order of the column list.
  Reading them gives, for an id, the row to write: the \<open>NOT NULL\<close> columns are checked only
  then, in the order of the columns.
\<close>

definition columns_in :: "sqlval list \<Rightarrow> db_error + (string option \<Rightarrow> db_error + row)" where
  "columns_in vs =
     bind_err (text_in (vs ! 0)) (\<lambda>c1.
     bind_err (text_in (vs ! 1)) (\<lambda>c2.
     bind_err (text_in (vs ! 2)) (\<lambda>c3.
     bind_err (text_in (vs ! 3)) (\<lambda>c4.
     bind_err (text_in (vs ! 4)) (\<lambda>c5.
     bind_err (text_in (vs ! 5)) (\<lambda>c6.
     bind_err (text_in (vs ! 6)) (\<lambda>c7.
     bind_err (int4_in (vs ! 7)) (\<lambda>c8.
     bind_err (numeric_in (vs ! 8)) (\<lambda>c9.
     bind_err (text_in (vs ! 9)) (\<lambda>c10.
     bind_err (text_in (vs ! 10)) (\<lambda>c11.
     bind_err (text_in (vs ! 11)) (\<lambda>c12.
     bind_err (text_in (vs ! 12)) (\<lambda>c13.
     bind_err (text_array_in (vs ! 13)) (\<lambda>c14.
     bind_err (text_in (vs ! 14)) (\<lambda>c15.
     bind_err (jsonb_in (vs ! 15)) (\<lambda>c16.
     bind_err (text_array_in (vs ! 16)) (\<lambda>c17.
     bind_err (text_array_in (vs ! 17)) (\<lambda>c18.
       Inr (\<lambda>c0.
         bind_err (not_null c0) (\<lambda>n0.
         bind_err (not_null c1) (\<lambda>n1.
         bind_err (not_null c2) (\<lambda>n2.
         bind_err (not_null c3) (\<lambda>n3.
         bind_err (not_null c4) (\<lambda>n4.
         bind_err (not_null c5) (\<lambda>n5.
         bind_err (not_null c6) (\<lambda>n6.
         bind_err (not_null c7) (\<lambda>n7.
         bind_err (not_null c8) (\<lambda>n8.
         bind_err (not_null c9) (\<lambda>n9.
         bind_err (not_null c10) (\<lambda>n10.
         bind_err (not_null c11) (\<lambda>n11.
         bind_err (not_null c12) (\<lambda>n12.
         bind_err (not_null c14) (\<lambda>n14.
         bind_err (not_null c15) (\<lambda>n15.
         bind_err (not_null c16) (\<lambda>n16.
           Inr \<lparr> col_id = n0, col_title = n1, col_description = n2,
                 col_long_description = n3, col_budget = n4, col_time_posted = n5,
                 col_category = n6, col_expertise = n7, col_proposals = n8,
                 col_client_rating = n9, col_client_location = n10, col_job_type = n11,
                 col_project_length = n12, col_weekly_hours = c13, col_skills = n14,
                 col_activity_on = n15, col_client_history = n16, col_attachments = c17,
                 col_questions = c18 \<rparr>)))))))))))))))))))))))))))))))))))"

text \<open>
  The row that the nineteen parameters of the \<open>INSERT\<close> stand for: the id, then the
  columns after it.
\<close>

definition row_of_values :: "sqlval list \<Rightarrow> db_error + row" where
  "row_of_values vs =
     (if length vs \<noteq> 19 then Inl ProtocolViolation
      else bind_err (text_in (vs ! 0)) (\<lambda>c0. bind_err (columns_in (tl vs)) (\<lambda>k. k c0)))"

subsection \<open>Result rows\<close>

definition js_of_text_opt :: "string option \<Rightarrow> jsval" where
  "js_of_text_opt x = (case x of None \<Rightarrow> JNull | Some s \<Rightarrow> JStr s)"

definition js_of_text_array_opt :: "string list option \<Rightarrow> jsval" where
  "js_of_text_array_opt x = (case x of None \<Rightarrow> JNull | Some xs \<Rightarrow> JArr (map JStr xs))"

text \<open>
  The object the driver builds for a row of \<^verbatim>\<open>SELECT *\<close> or \<^verbatim>\<open>RETURNING *\<close>: one key per
  column, named as the column. The default type parsers give \<open>INTEGER\<close> as a number,
  \<open>NUMERIC\<close> as a string, \<open>jsonb\<close> as the parsed value and \<open>NULL\<close> as \<^verbatim>\<open>null\<close>.
\<close>

definition row_to_js :: "engine \<Rightarrow> row \<Rightarrow> jsval" where
  "row_to_js e r = JObj
     [(''id'', JStr (col_id r)),
      (''title'', JStr (col_title r)),
      (''description'', JStr (col_description r)),
      (''long_description'', JStr (col_long_description r)),
      (''budget'', JStr (col_budget r)),
      (''time_posted'', JStr (col_time_posted r)),
      (''category'', JStr (col_category r)),
      (''expertise'', JStr (col_expertise r)),
      (''proposals'', JNum (of_int (col_proposals r))),
      (''client_rating'', JStr (numeric_out e (col_client_rating r))),
      (''client_location'', JStr (col_client_location r)),
      (''job_type'', JStr (col_job_type r)),
      (''project_length'', JStr (col_project_length r)),
      (''weekly_hours'', js_of_text_opt (col_weekly_hours r)),
      (''skills'', JArr (map JStr (col_skills r))),
      (''activity_on'', JStr (col_activity_on r)),
      (''client_history'', col_client_history r),
      (''attachments'', js_of_text_array_opt (col_attachments r)),
      (''questions'', js_of_text_array_opt (col_questions r))]"

text \<open>\<^verbatim>\<open>COUNT(*) OVER() as total_count\<close> is an \<open>int8\<close>, which the driver gives as a string.\<close>

definition search_row_to_js :: "engine \<Rightarrow> nat \<Rightarrow> row \<Rightarrow> jsval" where
  "search_row_to_js e n r = JObj (props (row_to_js e r) @ [(''total_count'', JStr (nat_text n))])"

subsection \<open>The statements\<close>

text \<open>
  A fragment of the \<open>WHERE\<close> clause of the search, with the number of its placeholder.
\<close>

datatype cond =
    TrueCond
  | CategoryEq nat
  | SearchIlike nat
  | ExpertiseEq nat

text \<open>
  The statements of the module, each with its bound values. The search carries its
  conditions (joined by \<open>AND\<close>) and the placeholders of \<open>LIMIT\<close> and \<open>OFFSET\<close>.
\<close>

datatype stmt =
    CreateTableIfNotExists
  | InsertReturning "sqlval list"
  | SelectById "sqlval list"
  | UpdateReturning "sqlval list"
  | DeleteReturningId "sqlval list"
  | SearchSelect "cond list" nat nat "sqlval list"

text \<open>Placeholder \<open>$n\<close> (from 1).\<close>

definition placeholder :: "sqlval list \<Rightarrow> nat \<Rightarrow> sqlval option" where
  "placeholder vs n = (if 1 \<le> n \<and> n \<le> length vs then Some (vs ! (n - 1)) else None)"

text \<open>
  Reading the parameters of a search when it is bound, from placeholder \<open>n\<close> on: the
  placeholders of \<open>LIMIT\<close> and \<open>OFFSET\<close> are \<open>int8\<close>, the others are compared with text
  columns and are texts.
\<close>

fun search_params_in :: "nat \<Rightarrow> nat \<Rightarrow> nat \<Rightarrow> sqlval list \<Rightarrow> db_error + unit" where
  "search_params_in li oi n [] = Inr ()"
| "search_params_in li oi n (v # vs) =
     (if n = li \<or> n = oi then
        bind_err (int8_in v) (\<lambda>_. search_params_in li oi (Suc n) vs)
      else bind_err (text_in v) (\<lambda>_. search_params_in li oi (Suc n) vs))"

text \<open>A comparison with a parameter that is not a text (\<open>NULL\<close> in particular) selects no row.\<close>

definition text_eq :: "string \<Rightarrow> sqlval option \<Rightarrow> bool" where
  "text_eq s p = (case p of Some (SqlText t) \<Rightarrow> s = t | _ \<Rightarrow> False)"

definition text_ilike :: "engine \<Rightarrow> string \<Rightarrow> sqlval option \<Rightarrow> bool" where
  "text_ilike e s p = (case p of Some (SqlText t) \<Rightarrow> ilike e s t | _ \<Rightarrow> False)"

fun eval_cond :: "engine \<Rightarrow> sqlval list \<Rightarrow> row \<Rightarrow> cond \<Rightarrow> bool" where
  "eval_cond e vs r TrueCond = True"
| "eval_cond e vs r (CategoryEq n) = text_eq (col_category r) (placeholder vs n)"
| "eval_cond e vs r (SearchIlike n) =
     (text_ilike e (col_title r) (placeholder vs n) \<or>
      text_ilike e (col_description r) (placeholder vs n) \<or>
      text_ilike e (col_long_description r) (placeholder vs n))"
| "eval_cond e vs r (ExpertiseEq n) = text_eq (col_expertise r) (placeholder vs n)"

text \<open>The rows the \<open>WHERE\<close> clause selects, in the engine's order for this execution.\<close>

definition selected :: "engine \<Rightarrow> cond list \<Rightarrow> sqlval list \<Rightarrow> row list \<Rightarrow> row list" where
  "selected e cs vs rs =
     order_by_time_posted_desc e (filter (\<lambda>r. list_all (eval_cond e vs r) cs) rs)"

text \<open>\<open>LIMIT NULL\<close> is no limit, \<open>OFFSET NULL\<close> is no offset.\<close>

definition limit_rows :: "int option \<Rightarrow> row list \<Rightarrow> row list" where
  "limit_rows lmt rs = (case lmt of None \<Rightarrow> rs | Some n \<Rightarrow> take (nat n) rs)"

definition offset_rows :: "int option \<Rightarrow> row list \<Rightarrow> row list" where
  "offset_rows ofs rs = (case ofs of None \<Rightarrow> rs | Some n \<Rightarrow> drop (nat n) rs)"

definition negative :: "int option \<Rightarrow> bool" where
  "negative x = (case x of None \<Rightarrow> False | Some n \<Rightarrow> n < 0)"

text \<open>
  One statement on the rows of the table: the result rows and the new rows of the table, or
  the error (the table is then as it was). The parameters are read first; what the
  execution finds (a \<open>NULL\<close> in a \<open>NOT NULL\<close> column, an id that is taken, a negative
  \<open>OFFSET\<close> or \<open>LIMIT\<close>) comes after.
\<close>

fun exec :: "engine \<Rightarrow> stmt \<Rightarrow> row list \<Rightarrow> db_error + (jsval list \<times> row list)" where
  "exec e CreateTableIfNotExists rs = Inr ([], rs)"
| "exec e (InsertReturning vs) rs =
     bind_err (row_of_values vs) (\<lambda>r.
       if col_id r \<in> set (map col_id rs) then Inl UniqueViolation
       else Inr ([row_to_js e r], rs @ [r]))"
| "exec e (SelectById vs) rs =
     (if length vs \<noteq> 1 then Inl ProtocolViolation
      else
        bind_err (text_in (vs ! 0)) (\<lambda>i.
          Inr (map (row_to_js e) (filter (\<lambda>r. i = Some (col_id r)) rs), rs)))"
| "exec e (UpdateReturning vs) rs =
     (if length vs \<noteq> 19 then Inl ProtocolViolation
      else
        \<comment> \<open>\<open>$1\<close> to \<open>$18\<close> are the columns after \<open>id\<close>, \<open>$19\<close> is the id of \<open>WHERE\<close>\<close>
        bind_err (columns_in (take 18 vs)) (\<lambda>k.
        bind_err (text_in (vs ! 18)) (\<lambda>i.
          if filter (\<lambda>old. i = Some (col_id old)) rs = [] then Inr ([], rs)
          else
            \<comment> \<open>\<open>SET\<close> leaves the id of a row as it is\<close>
            bind_err (k (Some [])) (\<lambda>r.
              Inr (map (\<lambda>old. row_to_js e (r \<lparr> col_id := col_id old \<rparr>))
                     (filter (\<lambda>old. i = Some (col_id old)) rs),
                   map (\<lambda>old. if i = Some (col_id old) then r \<lparr> col_id := col_id old \<rparr>
                              else old) rs)))))"
| "exec e (DeleteReturningId vs) rs =
     (if length vs \<noteq> 1 then Inl ProtocolViolation
      else
        bind_err (text_in (vs ! 0)) (\<lambda>i.
          Inr (map (\<lambda>r. JObj [(''id'', JStr (col_id r))])
                 (filter (\<lambda>r. i = Some (col_id r)) rs),
               filter (\<lambda>r. i \<noteq> Some (col_id r)) rs)))"
| "exec e (SearchSelect cs li oi vs) rs =
     bind_err (search_params_in li oi 1 vs) (\<lambda>_.
       case (placeholder vs li, placeholder vs oi) of
         (Some pl, Some po) \<Rightarrow>
           bind_err (int8_in pl) (\<lambda>lmt.
           bind_err (int8_in po) (\<lambda>ofs.
             if negative ofs then Inl InvalidRowCountInResultOffsetClause
             else if negative lmt then Inl InvalidRowCountInLimitClause
             else
               Inr (map (search_row_to_js e (length (selected e cs vs rs)))
                      (limit_rows lmt (offset_rows ofs (selected e cs vs rs))),
                    rs)))
       | _ \<Rightarrow> Inl ProtocolViolation)"

text \<open>
  The state of the backend: the rows of \<^verbatim>\<open>job_details\<close> (\<open>None\<close> until the table exists)
  and the statements received so far.
\<close>

record db =
  table :: "row list option"
  log :: "stmt list"

text \<open>\<^verbatim>\<open>this.pool.query(query, values)\<close>: the rows of the result, or the error it throws.\<close>

definition pool_query :: "engine \<Rightarrow> stmt \<Rightarrow> db \<Rightarrow> (db_error + jsval list) \<times> db" where
  "pool_query e st d =
     (case (st, table d) of
        (CreateTableIfNotExists, None) \<Rightarrow> (Inr [], \<lparr> table = Some [], log = log d @ [st] \<rparr>)
      | (_, None) \<Rightarrow> (Inl UndefinedTable, d \<lparr> log := log d @ [st] \<rparr>)
      | (_, Some rs) \<Rightarrow>
          (case exec e st rs of
             Inl err \<Rightarrow> (Inl err, d \<lparr> log := log d @ [st] \<rparr>)
           | Inr (out, rs') \<Rightarrow> (Inr out, \<lparr> table = Some rs', log = log d @ [st] \<rparr>)))"

section \<open>The module\<close>

text \<open>
  What a method of \<^verbatim>\<open>JobDetailsDB\<close> throws: the \<^verbatim>\<open>Error\<close> it builds from a \<^verbatim>\<open>ZodError\<close>
  (message \<^verbatim>\<open>Validation error: ...\<close>, here with the issues), or the error of the backend,
  which every method lets through as it is.
\<close>

datatype js_error =
    ValidationError "issue list"
  | DatabaseError db_error

text \<open>\<^verbatim>\<open>rows[0]\<close>: \<^verbatim>\<open>undefined\<close> past the end of the array.\<close>

definition js_index :: "jsval list \<Rightarrow> nat \<Rightarrow> jsval" where
  "js_index xs i = (if i < length xs then xs ! i else JUndefined)"

definition sql_of_text_opt :: "string option \<Rightarrow> sqlval" where
  "sql_of_text_opt x = (case x of None \<Rightarrow> SqlNull | Some s \<Rightarrow> SqlText s)"

definition sql_of_text_array_opt :: "string list option \<Rightarrow> sqlval" where
  "sql_of_text_array_opt x = (case x of None \<Rightarrow> SqlNull | Some xs \<Rightarrow> SqlTextArray xs)"

text \<open>The parsed \<^verbatim>\<open>client_history\<close> as the object that \<^verbatim>\<open>JSON.stringify\<close> receives.\<close>

definition ClientHistory_to_js :: "ClientHistory \<Rightarrow> jsval" where
  "ClientHistory_to_js h = JObj
     [(''jobsPosted'', JNum (jobsPosted h)),
      (''hireRate'', JNum (hireRate h)),
      (''totalSpent'', JStr (totalSpent h)),
      (''memberSince'', JStr (memberSince h)),
      (''verificationStatus'', JObj
         [(''payment'', JBool (payment (verificationStatus h))),
          (''phone'', JBool (phone (verificationStatus h))),
          (''email'', JBool (email (verificationStatus h)))])]"

text \<open>The array \<^verbatim>\<open>values\<close> of \<^verbatim>\<open>createJob\<close>.\<close>

definition insert_values :: "JobDetails \<Rightarrow> sqlval list" where
  "insert_values validatedData =
     [SqlText (id' validatedData),
      SqlText (title validatedData),
      SqlText (description validatedData),
      SqlText (longDescription validatedData),
      SqlText (budget validatedData),
      SqlText (time_posted validatedData),
      SqlText (category validatedData),
      SqlText (expertise validatedData),
      SqlNumber (proposals validatedData),
      SqlNumber (client_rating validatedData),
      SqlText (client_location validatedData),
      SqlText (jobType validatedData),
      SqlText (project_length validatedData),
      sql_of_text_opt (weeklyHours validatedData),
      SqlTextArray (skills validatedData),
      SqlText (activityOn validatedData),
      SqlJson (ClientHistory_to_js (client_history validatedData)),
      sql_of_text_array_opt (attachments validatedData),
      sql_of_text_array_opt (questions validatedData)]"

text \<open>The array \<^verbatim>\<open>values\<close> of \<^verbatim>\<open>updateJob\<close>: the same without the id, then the argument \<open>id\<close>.\<close>

definition update_values :: "JobDetails \<Rightarrow> string \<Rightarrow> sqlval list" where
  "update_values validatedData id0 =
     [SqlText (title validatedData),
      SqlText (description validatedData),
      SqlText (longDescription validatedData),
      SqlText (budget validatedData),
      SqlText (time_posted validatedData),
      SqlText (category validatedData),
      SqlText (expertise validatedData),
      SqlNumber (proposals validatedData),
      SqlNumber (client_rating validatedData),
      SqlText (client_location validatedData),
      SqlText (jobType validatedData),
      SqlText (project_length validatedData),
      sql_of_text_opt (weeklyHours validatedData),
      SqlTextArray (skills validatedData),
      SqlText (activityOn validatedData),
      SqlJson (ClientHistory_to_js (client_history validatedData)),
      sql_of_text_array_opt (attachments validatedData),
      sql_of_text_array_opt (questions validatedData),
      SqlText id0]"

text \<open>
  Every method takes the state of the backend and returns what it returns or throws,
  with the new state.
\<close>

definition initializeTable :: "engine \<Rightarrow> db \<Rightarrow> (js_error + unit) \<times> db" where
  "initializeTable e d =
     (case pool_query e CreateTableIfNotExists d of
        (Inl err, d') \<Rightarrow> (Inl (DatabaseError err), d')
      | (Inr _, d') \<Rightarrow> (Inr (), d'))"

definition createJob :: "engine \<Rightarrow> jsval \<Rightarrow> db \<Rightarrow> (js_error + jsval) \<times> db" where
  "createJob e jobDetails d =
     (case JobDetailsSchema_parse jobDetails of
        Inl zod_issues \<Rightarrow> (Inl (ValidationError zod_issues), d)
      | Inr validatedData \<Rightarrow>
          (case pool_query e (InsertReturning (insert_values validatedData)) d of
             (Inl err, d') \<Rightarrow> (Inl (DatabaseError err), d')
           | (Inr rows, d') \<Rightarrow> (Inr (js_index rows 0), d')))"

definition getJob :: "engine \<Rightarrow> string \<Rightarrow> db \<Rightarrow> (js_error + jsval) \<times> db" where
  "getJob e id0 d =
     (case pool_query e (SelectById [SqlText id0]) d of
        (Inl err, d') \<Rightarrow> (Inl (DatabaseError err), d')
      | (Inr rows, d') \<Rightarrow>
          if length rows = 0 then (Inr JNull, d')
          else
            (let job = js_index rows 0
             in (Inr (spread job (JObj [(''clientHistory'', obj_get job ''client_history'')])),
                 d')))"

definition updateJob :: "engine \<Rightarrow> string \<Rightarrow> jsval \<Rightarrow> db \<Rightarrow> (js_error + jsval) \<times> db" where
  "updateJob e id0 jobDetails d =
     (case getJob e id0 d of
        (Inl err, d1) \<Rightarrow> (Inl err, d1)
      | (Inr currentJob, d1) \<Rightarrow>
          if \<not> truthy currentJob then (Inr JNull, d1)
          else
            (let updatedJob = spread currentJob jobDetails
             in case JobDetailsSchema_parse updatedJob of
                  Inl zod_issues \<Rightarrow> (Inl (ValidationError zod_issues), d1)
                | Inr validatedData \<Rightarrow>
                    (case pool_query e (UpdateReturning (update_values validatedData id0)) d1 of
                       (Inl err, d2) \<Rightarrow> (Inl (DatabaseError err), d2)
                     | (Inr rows, d2) \<Rightarrow> (Inr (js_index rows 0), d2))))"

definition deleteJob :: "engine \<Rightarrow> string \<Rightarrow> db \<Rightarrow> (js_error + bool) \<times> db" where
  "deleteJob e id0 d =
     (case pool_query e (DeleteReturningId [SqlText id0]) d of
        (Inl err, d') \<Rightarrow> (Inl (DatabaseError err), d')
      | (Inr rows, d') \<Rightarrow> (Inr (length rows > 0), d'))"

subsection \<open>Search\<close>

text \<open>
  The filters: each is a string or \<^verbatim>\<open>undefined\<close>. \<open>page\<close> and \<open>limit\<close> are integers
  (\<^verbatim>\<open>(page - 1) * limit\<close> is exact on doubles as long as its operands and its result are
  safe integers); their defaults 1 and 10 are the caller's to pass.
\<close>

record searchParams =
  sp_category :: "string option"
  sp_search :: "string option"
  sp_expertise :: "string option"

text \<open>\<^verbatim>\<open>if (searchParams.category)\<close>: a string is truthy when it is not empty.\<close>

definition supplied :: "string option \<Rightarrow> bool" where
  "supplied x = truthy (case x of None \<Rightarrow> JUndefined | Some s \<Rightarrow> JStr s)"

definition filter_text :: "string option \<Rightarrow> string" where
  "filter_text x = (case x of None \<Rightarrow> [] | Some s \<Rightarrow> s)"

text \<open>
  The three \<^verbatim>\<open>if\<close> blocks, each on \<^verbatim>\<open>(conditions, values, valueIndex)\<close>.
\<close>

definition add_category ::
  "searchParams \<Rightarrow> cond list \<times> sqlval list \<times> nat \<Rightarrow> cond list \<times> sqlval list \<times> nat"
where
  "add_category sp st =
     (case st of (conditions, vals, valueIndex) \<Rightarrow>
        if supplied (sp_category sp) then
          (conditions @ [CategoryEq valueIndex],
           vals @ [SqlText (filter_text (sp_category sp))],
           valueIndex + 1)
        else st)"

definition add_search ::
  "searchParams \<Rightarrow> cond list \<times> sqlval list \<times> nat \<Rightarrow> cond list \<times> sqlval list \<times> nat"
where
  "add_search sp st =
     (case st of (conditions, vals, valueIndex) \<Rightarrow>
        if supplied (sp_search sp) then
          (conditions @ [SearchIlike valueIndex],
           vals @ [SqlText (''%'' @ filter_text (sp_search sp) @ ''%'')],
           valueIndex + 1)
        else st)"

definition add_expertise ::
  "searchParams \<Rightarrow> cond list \<times> sqlval list \<times> nat \<Rightarrow> cond list \<times> sqlval list \<times> nat"
where
  "add_expertise sp st =
     (case st of (conditions, vals, valueIndex) \<Rightarrow>
        if supplied (sp_expertise sp) then
          (conditions @ [ExpertiseEq valueIndex],
           vals @ [SqlText (filter_text (sp_expertise sp))],
           valueIndex + 1)
        else st)"

definition search_offset :: "int \<Rightarrow> int \<Rightarrow> int" where
  "search_offset page limit = (page - 1) * limit"

text \<open>The statement \<^verbatim>\<open>searchJobs\<close> sends.\<close>

definition search_query :: "searchParams \<Rightarrow> int \<Rightarrow> int \<Rightarrow> stmt" where
  "search_query sp page limit =
     (case add_expertise sp (add_search sp (add_category sp ([TrueCond], [], 1))) of
        (conditions, vals, valueIndex) \<Rightarrow>
          SearchSelect conditions valueIndex (valueIndex + 1)
            (vals @ [SqlNumber (of_int limit), SqlNumber (of_int (search_offset page limit))]))"

definition is_digit :: "char \<Rightarrow> bool" where
  "is_digit c = (48 \<le> (of_char c :: nat) \<and> (of_char c :: nat) \<le> 57)"

definition digits_value :: "string \<Rightarrow> nat" where
  "digits_value s = foldl (\<lambda>a c. 10 * a + (of_char c - 48)) 0 s"

text \<open>
  \<^verbatim>\<open>Number(x)\<close>, with \<open>None\<close> for \<^verbatim>\<open>NaN\<close>. Of the strings only the empty one and the
  decimal digit strings are given their number here (all that \<open>total_count\<close> can be).
\<close>

fun js_Number :: "jsval \<Rightarrow> rat option" where
  "js_Number (JNum q) = Some q"
| "js_Number (JStr s) = (if list_all is_digit s then Some (of_nat (digits_value s)) else None)"
| "js_Number (JBool b) = Some (if b then 1 else 0)"
| "js_Number JNull = Some 0"
| "js_Number _ = None"

record search_result =
  jobs :: "jsval list"
  total :: "rat option"

definition searchJobs ::
  "engine \<Rightarrow> searchParams \<Rightarrow> int \<Rightarrow> int \<Rightarrow> db \<Rightarrow> (js_error + search_result) \<times> db"
where
  "searchJobs e sp page limit d =
     (case pool_query e (search_query sp page limit) d of
        (Inl err, d') \<Rightarrow> (Inl (DatabaseError err), d')
      | (Inr rows, d') \<Rightarrow>
          (let total_count = obj_get (js_index rows 0) ''total_count'';
               total0 = (if truthy total_count then total_count else JNum 0);
               jobs0 = map (\<lambda>row. spread row
                         (JObj [(''clientHistory'', obj_get row ''client_history'')])) rows
           in (Inr \<lparr> jobs = jobs0, total = js_Number total0 \<rparr>, d')))"

section \<open>A concrete engine and concrete records\<close>

text \<open>
  For evaluating the module on concrete inputs: an engine with the \<open>C\<close> collation (byte
  order), \<open>ILIKE\<close> on ASCII letters, and \<open>NUMERIC\<close> printed in decimal.
\<close>

definition lower_ascii :: "char \<Rightarrow> char" where
  "lower_ascii c =
     (if 65 \<le> (of_char c :: nat) \<and> (of_char c :: nat) \<le> 90 then char_of (of_char c + 32 :: nat)
      else c)"

text \<open>
  \<open>LIKE\<close>, pattern first: \<open>%\<close> is any text, \<open>_\<close> any character, a backslash takes the
  next character literally.
\<close>

fun like_match :: "string \<Rightarrow> string \<Rightarrow> bool" where
  "like_match [] t = (t = [])"
| "like_match (p # ps) t =
     (if p = CHR ''%'' then
        (like_match ps t \<or> (case t of [] \<Rightarrow> False | _ # t' \<Rightarrow> like_match (p # ps) t'))
      else if p = CHR ''_'' then
        (case t of [] \<Rightarrow> False | _ # t' \<Rightarrow> like_match ps t')
      else if p = CHR 0x5C then
        (case ps of [] \<Rightarrow> False
         | q # qs \<Rightarrow> (case t of [] \<Rightarrow> False | c # t' \<Rightarrow> c = q \<and> like_match qs t'))
      else (case t of [] \<Rightarrow> False | c # t' \<Rightarrow> c = p \<and> like_match ps t'))"

definition ascii_ilike :: "string \<Rightarrow> string \<Rightarrow> bool" where
  "ascii_ilike t p = like_match (map lower_ascii p) (map lower_ascii t)"

fun str_le :: "string \<Rightarrow> string \<Rightarrow> bool" where
  "str_le [] t = True"
| "str_le (a # as) [] = False"
| "str_le (a # as) (b # bs) =
     ((of_char a :: nat) < of_char b \<or> (a = b \<and> str_le as bs))"

text \<open>
  Two sorts by \<open>time_posted\<close>, descending, that differ only among equal keys: the first
  keeps the order of the table there, the second reverses it.
\<close>

fun insert_desc :: "row \<Rightarrow> row list \<Rightarrow> row list" where
  "insert_desc r [] = [r]"
| "insert_desc r (x # xs) =
     (if str_le (col_time_posted x) (col_time_posted r) then r # x # xs
      else x # insert_desc r xs)"

definition sort_desc :: "row list \<Rightarrow> row list" where
  "sort_desc rs = foldr insert_desc rs []"

fun insert_desc_after :: "row \<Rightarrow> row list \<Rightarrow> row list" where
  "insert_desc_after r [] = [r]"
| "insert_desc_after r (x # xs) =
     (if str_le (col_time_posted r) (col_time_posted x) then x # insert_desc_after r xs
      else r # x # xs)"

definition sort_desc_rev_ties :: "row list \<Rightarrow> row list" where
  "sort_desc_rev_ties rs = foldr insert_desc_after rs []"

fun frac_text :: "nat \<Rightarrow> rat \<Rightarrow> string" where
  "frac_text 0 q = []"
| "frac_text (Suc n) q =
     (if q = 0 then []
      else char_of (48 + nat \<lfloor>q * 10\<rfloor>) # frac_text n (q * 10 - of_int \<lfloor>q * 10\<rfloor>))"

definition decimal_text :: "rat \<Rightarrow> string" where
  "decimal_text q =
     (if q < 0 then ''-'' else []) @ nat_text (nat \<lfloor>\<bar>q\<bar>\<rfloor>) @
     (if \<bar>q\<bar> = of_int \<lfloor>\<bar>q\<bar>\<rfloor> then [] else ''.'' @ frac_text 20 (\<bar>q\<bar> - of_int \<lfloor>\<bar>q\<bar>\<rfloor>))"

definition pg :: engine where
  "pg = \<lparr> ilike = ascii_ilike, order_by_time_posted_desc = sort_desc,
          numeric_out = decimal_text \<rparr>"

definition pg_rev_ties :: engine where
  "pg_rev_ties = pg \<lparr> order_by_time_posted_desc := sort_desc_rev_ties \<rparr>"

text \<open>A job posting that satisfies the schema, with the id, title, category, expertise and
  posting time given.\<close>

definition sample_history :: jsval where
  "sample_history = JObj
     [(''jobsPosted'', JNum 12),
      (''hireRate'', JNum (3 / 4)),
      (''totalSpent'', JStr ''$10k+''),
      (''memberSince'', JStr ''2021''),
      (''verificationStatus'', JObj
         [(''payment'', JBool True), (''phone'', JBool False), (''email'', JBool True)])]"

definition sample_job :: "string \<Rightarrow> string \<Rightarrow> string \<Rightarrow> string \<Rightarrow> string \<Rightarrow> jsval" where
  "sample_job i ttl cat ex posted = JObj
     [(''id'', JStr i),
      (''title'', JStr ttl),
      (''description'', JStr ''short''),
      (''longDescription'', JStr ''long text''),
      (''budget'', JStr ''$500''),
      (''time_posted'', JStr posted),
      (''category'', JStr cat),
      (''expertise'', JStr ex),
      (''proposals'', JNum 5),
      (''client_rating'', JNum (9 / 2)),
      (''client_location'', JStr ''NP''),
      (''jobType'', JStr ''fixed''),
      (''project_length'', JStr ''1 month''),
      (''skills'', JArr [JStr ''ts'', JStr ''sql'']),
      (''activityOn'', JStr ''today''),
      (''client_history'', sample_history)]"

definition sample_row :: "string \<Rightarrow> string \<Rightarrow> string \<Rightarrow> string \<Rightarrow> string \<Rightarrow> row" where
  "sample_row i ttl cat ex posted =
     \<lparr> col_id = i, col_title = ttl, col_description = ''short'',
       col_long_description = ''long text'', col_budget = ''$500'', col_time_posted = posted,
       col_category = cat, col_expertise = ex, col_proposals = 5, col_client_rating = 9 / 2,
       col_client_location = ''NP'', col_job_type = ''fixed'', col_project_length = ''1 month'',
       col_weekly_hours = None, col_skills = [''ts'', ''sql''], col_activity_on = ''today'',
       col_client_history = sample_history, col_attachments = None, col_questions = None \<rparr>"

text \<open>The backend before and after \<^verbatim>\<open>initializeTable\<close>, without the log.\<close>

definition no_table :: db where
  "no_table = \<lparr> table = None, log = [] \<rparr>"

definition db_of :: "row list \<Rightarrow> db" where
  "db_of rs = \<lparr> table = Some rs, log = [] \<rparr>"

text \<open>What the schema makes of \<open>sample_job\<close>.\<close>

definition sample_details :: "string \<Rightarrow> string \<Rightarrow> string \<Rightarrow> string \<Rightarrow> string \<Rightarrow> JobDetails" where
  "sample_details i ttl cat ex posted =
     \<lparr> id' = i, title = ttl, description = ''short'', longDescription = ''long text'',
       budget = ''$500'', time_posted = posted, category = cat, expertise = ex,
       proposals = 5, client_rating = 9 / 2, client_location = ''NP'', jobType = ''fixed'',
       project_length = ''1 month'', weeklyHours = None, skills = [''ts'', ''sql''],
       activityOn = ''today'',
       client_history =
         \<lparr> jobsPosted = 12, hireRate = 3 / 4, totalSpent = ''$10k+'', memberSince = ''2021'',
           verificationStatus = \<lparr> payment = True, phone = False, email = True \<rparr> \<rparr>,
       attachments = None, questions = None \<rparr>"

text \<open>What \<^verbatim>\<open>getJob\<close> returns for the row of id \<open>j1\<close>, title \<open>A\<close>, category \<open>web\<close>,
  expertise \<open>x\<close>, posted at \<open>t1\<close>, on the engine \<open>pg\<close>.\<close>

definition sample_current :: jsval where
  "sample_current = JObj
        [(''id'', JStr ''j1''), (''title'', JStr ''A''),
         (''description'', JStr ''short''),
         (''long_description'', JStr ''long text''),
         (''budget'', JStr ''$500''),
         (''time_posted'', JStr ''t1''),
         (''category'', JStr ''web''), (''expertise'', JStr ''x''),
         (''proposals'', JNum 5), (''client_rating'', JStr ''4.5''),
         (''client_location'', JStr ''NP''), (''job_type'', JStr ''fixed''),
         (''project_length'', JStr ''1 month''), (''weekly_hours'', JNull),
         (''skills'', JArr [JStr ''ts'', JStr ''sql'']),
         (''activity_on'', JStr ''today''),
         (''client_history'', sample_history),
         (''attachments'', JNull), (''questions'', JNull),
         (''clientHistory'', sample_history)]"

section \<open>Notions used in the statements\<close>

text \<open>The integers that a double holds exactly (\<^verbatim>\<open>Number.isSafeInteger\<close>).\<close>

definition safe_integer :: "int \<Rightarrow> bool" where
  "safe_integer n = (- 9007199254740991 \<le> n \<and> n \<le> 9007199254740991)"

text \<open>
  What the \<open>WHERE\<close> clause of a search means for one row: each filter that is supplied
  must hold, the search text on one of the three text columns.
\<close>

definition row_matches :: "engine \<Rightarrow> searchParams \<Rightarrow> row \<Rightarrow> bool" where
  "row_matches e sp r =
     ((if supplied (sp_category sp) then col_category r = filter_text (sp_category sp)
       else True) \<and>
      (if supplied (sp_search sp) then
         ilike e (col_title r) (''%'' @ filter_text (sp_search sp) @ ''%'') \<or>
         ilike e (col_description r) (''%'' @ filter_text (sp_search sp) @ ''%'') \<or>
         ilike e (col_long_description r) (''%'' @ filter_text (sp_search sp) @ ''%'')
       else True) \<and>
      (if supplied (sp_expertise sp) then col_expertise r = filter_text (sp_expertise sp)
       else True))"

text \<open>No filter text has the character U+0000 (a filter that is absent has no text).\<close>

definition valid_filters :: "searchParams \<Rightarrow> bool" where
  "valid_filters sp =
     (valid_text (filter_text (sp_category sp)) \<and>
      valid_text (filter_text (sp_search sp)) \<and>
      valid_text (filter_text (sp_expertise sp)))"

text \<open>The rows of the table that match, in the engine's order.\<close>

definition matching :: "engine \<Rightarrow> searchParams \<Rightarrow> row list \<Rightarrow> row list" where
  "matching e sp rs = order_by_time_posted_desc e (filter (row_matches e sp) rs)"

text \<open>The element of \<^verbatim>\<open>jobs\<close> that a row becomes in a search with \<open>n\<close> matches.\<close>

definition search_job :: "engine \<Rightarrow> nat \<Rightarrow> row \<Rightarrow> jsval" where
  "search_job e n r =
     spread (search_row_to_js e n r) (JObj [(''clientHistory'', col_client_history r)])"

text \<open>An engine whose \<open>ORDER BY\<close> returns the rows it is given, each once.\<close>

definition orders_rows :: "engine \<Rightarrow> bool" where
  "orders_rows e = (\<forall>rs. mset (order_by_time_posted_desc e rs) = mset rs)"

text \<open>The \<^verbatim>\<open>jobs\<close> and the \<^verbatim>\<open>total\<close> of a search (nothing when it throws).\<close>

definition page_jobs :: "engine \<Rightarrow> searchParams \<Rightarrow> int \<Rightarrow> int \<Rightarrow> db \<Rightarrow> jsval list" where
  "page_jobs e sp page limit d =
     (case fst (searchJobs e sp page limit d) of Inl _ \<Rightarrow> [] | Inr res \<Rightarrow> jobs res)"

definition page_total :: "engine \<Rightarrow> searchParams \<Rightarrow> int \<Rightarrow> int \<Rightarrow> db \<Rightarrow> rat option" where
  "page_total e sp page limit d =
     (case fst (searchJobs e sp page limit d) of Inl _ \<Rightarrow> None | Inr res \<Rightarrow> total res)"

text \<open>The number of pages of \<open>limit\<close> rows that \<open>n\<close> rows fill: \<open>ceil (n / limit)\<close>.\<close>

definition page_count :: "nat \<Rightarrow> int \<Rightarrow> nat" where
  "page_count n limit = (n + nat limit - 1) div nat limit"

text \<open>The number of rows of the table that match.\<close>

definition match_count :: "engine \<Rightarrow> searchParams \<Rightarrow> row list \<Rightarrow> nat" where
  "match_count e sp rs = length (filter (row_matches e sp) rs)"

text \<open>The \<^verbatim>\<open>jobs\<close> of the pages \<open>1\<close> to \<open>ceil (n / limit)\<close>, one after the other.\<close>

definition all_pages :: "engine \<Rightarrow> searchParams \<Rightarrow> int \<Rightarrow> db \<Rightarrow> nat \<Rightarrow> jsval list" where
  "all_pages e sp limit d n =
     concat (map (\<lambda>p. page_jobs e sp (int p) limit d) [1..<Suc (page_count n limit)])"

text \<open>
  An element of \<^verbatim>\<open>jobs\<close> without its key \<open>total_count\<close>, which holds the size of the
  whole result and so differs between two searches that return the same row.
\<close>

definition without_total_count :: "jsval \<Rightarrow> jsval" where
  "without_total_count j = JObj (AList.delete ''total_count'' (props j))"

section \<open>Basic facts\<close>

subsection \<open>Objects and the backend\<close>

lemma pool_query_table:
  "table d = Some rs \<Longrightarrow>
   pool_query e st d =
     (case exec e st rs of
        Inl err \<Rightarrow> (Inl err, d \<lparr> log := log d @ [st] \<rparr>)
      | Inr (out, rs') \<Rightarrow> (Inr out, \<lparr> table = Some rs', log = log d @ [st] \<rparr>))"
  by (cases st; hypsubst; simp add: pool_query_def split: sum.split prod.split)

lemma pool_query_no_table:
  "table d = None \<Longrightarrow> st \<noteq> CreateTableIfNotExists \<Longrightarrow>
   pool_query e st d = (Inl UndefinedTable, d \<lparr> log := log d @ [st] \<rparr>)"
  by (cases st) (simp_all add: pool_query_def)

lemma obj_get_spread_other:
  "k \<notin> fst ` set (props b) \<Longrightarrow> obj_get (spread a b) k = obj_get a k"
proof -
  assume k: "k \<notin> fst ` set (props b)"
  have upd: "k \<notin> fst ` set kvs \<Longrightarrow>
        map_of (fold (\<lambda>(k, v). AList.update k v) kvs al) k = map_of al k"
    for kvs al :: "(string \<times> jsval) list"
    by (induction kvs arbitrary: al) (auto simp: update_conv')
  show ?thesis
    by (simp add: obj_get_def spread_def upd [OF k])
qed

lemma obj_get_row_to_js_longDescription:
  "obj_get (row_to_js e r) ''longDescription'' = JUndefined"
  by (simp add: obj_get_def row_to_js_def)

lemma getJob_table:
  "table d = Some rs \<Longrightarrow> valid_text i \<Longrightarrow>
   getJob e i d =
     (case filter (\<lambda>r. col_id r = i) rs of
        [] \<Rightarrow> (Inr JNull, d \<lparr> log := log d @ [SelectById [SqlText i]] \<rparr>)
      | r # _ \<Rightarrow>
          (Inr (spread (row_to_js e r)
                  (JObj [(''clientHistory'', col_client_history r)])),
           d \<lparr> log := log d @ [SelectById [SqlText i]] \<rparr>))"
proof -
  assume t: "table d = Some rs" and v: "valid_text i"
  have f: "filter (\<lambda>r. i = col_id r) rs = filter (\<lambda>r. col_id r = i) rs"
    by (rule filter_cong) auto
  from t v show ?thesis
    apply (simp add: getJob_def pool_query_table text_in_def bind_err_def js_index_def f
        split: list.splits)
    apply (auto simp: obj_get_def row_to_js_def)
    done
qed

lemma getJob_invalid_id:
  "table d = Some rs \<Longrightarrow> \<not> valid_text i \<Longrightarrow>
   getJob e i d =
     (Inl (DatabaseError CharacterNotInRepertoire),
      d \<lparr> log := log d @ [SelectById [SqlText i]] \<rparr>)"
  by (simp add: getJob_def pool_query_table text_in_def bind_err_def)

lemma parse_needs_longDescription:
  "obj_get v ''longDescription'' = JUndefined \<Longrightarrow> \<exists>es. JobDetailsSchema_parse v = Inl es"
  by (simp add: JobDetailsSchema_parse_def JobDetailsSchema_issues_def z_string_def issues_of_def)

text \<open>\<^verbatim>\<open>initializeTable\<close> creates the empty table once and leaves an existing table alone.\<close>

lemma initializeTable_creates_once:
  "initializeTable e no_table = (Inr (), \<lparr> table = Some [], log = [CreateTableIfNotExists] \<rparr>)"
  "table d = Some rs \<Longrightarrow> table (snd (initializeTable e d)) = Some rs"
  by (simp_all add: initializeTable_def pool_query_def no_table_def)

text \<open>No statement makes two rows share an id: the primary key holds in every state that
  the module reaches from the empty table.\<close>

lemma primary_key_is_kept:
  assumes "table d = Some rs" and "distinct (map col_id rs)"
    and "table (snd (pool_query e st d)) = Some rs'"
  shows "distinct (map col_id rs')"
proof (cases st)
  case CreateTableIfNotExists
  with assms show ?thesis by (simp add: pool_query_table)
next
  case (InsertReturning vs)
  with assms show ?thesis
    by (cases "row_of_values vs") (auto simp: pool_query_table bind_err_def split: if_splits)
next
  case (SelectById vs)
  with assms show ?thesis
    by (cases "text_in (vs ! 0)") (auto simp: pool_query_table bind_err_def split: if_splits)
next
  case (UpdateReturning vs)
  have keep: "col_id \<circ> (\<lambda>old. if P old then r \<lparr> col_id := col_id old \<rparr> else old) = col_id"
    for P and r :: row
    by (auto simp: fun_eq_iff)
  show ?thesis
  proof (cases "columns_in (take 18 vs)")
    case (Inl err)
    with UpdateReturning assms show ?thesis
      by (auto simp: pool_query_table bind_err_def split: if_splits)
  next
    case (Inr k)
    show ?thesis
    proof (cases "text_in (vs ! 18)")
      case (Inl err)
      with Inr UpdateReturning assms show ?thesis
        by (auto simp: pool_query_table bind_err_def split: if_splits)
    next
      case i: (Inr i)
      show ?thesis
      proof (cases "k (Some [])")
        case (Inl err)
        with i Inr UpdateReturning assms show ?thesis
          by (auto simp: pool_query_table bind_err_def split: if_splits)
      next
        case r: (Inr r)
        with i Inr UpdateReturning assms show ?thesis
          by (auto simp: pool_query_table bind_err_def keep split: if_splits)
      qed
    qed
  qed
next
  case (DeleteReturningId vs)
  with assms show ?thesis
    by (cases "text_in (vs ! 0)")
      (auto simp: pool_query_table bind_err_def distinct_map_filter split: if_splits)
next
  case (SearchSelect cs li oi vs)
  with assms show ?thesis
    by (auto simp: pool_query_table bind_err_def
        split: sum.splits if_splits option.splits)
qed

subsection \<open>The search statement\<close>

lemma int8_in_of_int:
  "- 9223372036854775808 \<le> n \<Longrightarrow> n \<le> 9223372036854775807 \<Longrightarrow>
   int8_in (SqlNumber (of_int n)) = Inr (Some n)"
  by (simp add: int8_in_def integer_in_def)

lemma selected_search_conditions:
  "add_expertise sp (add_search sp (add_category sp ([TrueCond], [], 1))) = (cs, vs, i) \<Longrightarrow>
   selected e cs (vs @ extra) rs = matching e sp rs \<and> i = Suc (length vs)"
  by (auto simp: add_expertise_def add_search_def add_category_def selected_def matching_def
        row_matches_def placeholder_def text_eq_def text_ilike_def nth_append
        split: if_splits intro!: arg_cong [where f = "order_by_time_posted_desc e"] filter_cong)

text \<open>
  The filter texts are the parameters before those of \<open>LIMIT\<close> and \<open>OFFSET\<close>, so a filter
  text with U+0000 is the error of the search whatever the page and the limit are.
\<close>

lemma search_params_built:
  "add_expertise sp (add_search sp (add_category sp ([TrueCond], [], 1))) = (cs, vs, i) \<Longrightarrow>
   search_params_in i (Suc i) (Suc 0) (vs @ [SqlNumber lm, SqlNumber os]) =
     (if valid_filters sp then
        bind_err (int8_in (SqlNumber lm)) (\<lambda>_. bind_err (int8_in (SqlNumber os)) (\<lambda>_. Inr ()))
      else Inl CharacterNotInRepertoire)"
  by (auto simp: add_expertise_def add_search_def add_category_def valid_filters_def
        supplied_def filter_text_def text_in_def bind_err_def valid_text_def
        split: if_splits option.splits)

lemma exec_search_query:
  assumes "valid_filters sp"
    and "0 \<le> limit" "limit \<le> 9223372036854775807"
    and "0 \<le> search_offset page limit" "search_offset page limit \<le> 9223372036854775807"
  shows "exec e (search_query sp page limit) rs =
     Inr (map (search_row_to_js e (length (matching e sp rs)))
            (take (nat limit) (drop (nat (search_offset page limit)) (matching e sp rs))), rs)"
proof -
  obtain cs vs i where b: "add_expertise sp (add_search sp (add_category sp ([TrueCond], [], 1))) = (cs, vs, i)"
    by (metis prod_cases3)
  note s = selected_search_conditions [OF b]
  from s have i: "i = Suc (length vs)" for e extra rs by simp
  note p = search_params_built [OF b, unfolded i]
  show ?thesis
    using assms unfolding search_query_def b
    by (simp add: s p placeholder_def nth_append int8_in_of_int bind_err_def negative_def
        limit_rows_def offset_rows_def)
qed

lemma exec_search_query_negative_offset:
  assumes "valid_filters sp"
    and "- 9223372036854775808 \<le> limit" "limit \<le> 9223372036854775807"
    and "search_offset page limit < 0" "- 9223372036854775808 \<le> search_offset page limit"
  shows "exec e (search_query sp page limit) rs = Inl InvalidRowCountInResultOffsetClause"
proof -
  obtain cs vs i where b: "add_expertise sp (add_search sp (add_category sp ([TrueCond], [], 1))) = (cs, vs, i)"
    by (metis prod_cases3)
  note s = selected_search_conditions [OF b]
  from s have i: "i = Suc (length vs)" for e extra rs by simp
  note p = search_params_built [OF b, unfolded i]
  show ?thesis
    using assms unfolding search_query_def b
    by (simp add: s p placeholder_def nth_append int8_in_of_int bind_err_def negative_def)
qed

lemma exec_search_query_invalid_filter:
  assumes "\<not> valid_filters sp"
  shows "exec e (search_query sp page limit) rs = Inl CharacterNotInRepertoire"
proof -
  obtain cs vs i where b: "add_expertise sp (add_search sp (add_category sp ([TrueCond], [], 1))) = (cs, vs, i)"
    by (metis prod_cases3)
  note p = search_params_built [OF b]
  show ?thesis
    using assms unfolding search_query_def b
    by (simp add: p bind_err_def)
qed

lemma digits_value_snoc: "digits_value (s @ [c]) = 10 * digits_value s + (of_char c - 48)"
  by (simp add: digits_value_def)

lemma nat_text_digits: "list_all is_digit (nat_text n) \<and> digits_value (nat_text n) = n"
proof (induction n rule: nat_text.induct)
  case (1 n)
  show ?case
  proof (cases "n < 10")
    case True
    then show ?thesis
      by (subst (1 2) nat_text.simps) (simp add: is_digit_def digits_value_def)
  next
    case False
    with 1 have ih: "list_all is_digit (nat_text (n div 10))"
      "digits_value (nat_text (n div 10)) = n div 10" by simp_all
    have m: "n mod 10 < 10" by simp
    from False show ?thesis
      by (subst (1 2) nat_text.simps) (simp add: ih is_digit_def digits_value_snoc)
  qed
qed

lemma nat_text_not_empty: "nat_text n \<noteq> []"
  by (subst nat_text.simps) simp

lemma obj_get_search_row:
  "obj_get (search_row_to_js e n r) ''total_count'' = JStr (nat_text n)"
  "obj_get (search_row_to_js e n r) ''client_history'' = col_client_history r"
  by (simp_all add: obj_get_def search_row_to_js_def row_to_js_def)

lemma obj_get_undefined: "obj_get JUndefined k = JUndefined"
  by (simp add: obj_get_def)

lemma searchJobs_ok:
  assumes "table d = Some rs" "valid_filters sp" "0 \<le> limit" "limit \<le> 9223372036854775807" 
    "0 \<le> search_offset page limit" "search_offset page limit \<le> 9223372036854775807" 
  shows "searchJobs e sp page limit d =
     (Inr \<lparr> jobs = map (search_job e (length (matching e sp rs)))
                     (take (nat limit) (drop (nat (search_offset page limit)) (matching e sp rs))),
            total = Some (if take (nat limit) (drop (nat (search_offset page limit)) (matching e sp rs)) = []
                          then 0 else of_nat (length (matching e sp rs))) \<rparr>,
      d \<lparr> log := log d @ [search_query sp page limit] \<rparr>)"
proof -
  define P where "P = take (nat limit) (drop (nat (search_offset page limit)) (matching e sp rs))"
  have q: "pool_query e (search_query sp page limit) d =
      (Inr (map (search_row_to_js e (length (matching e sp rs))) P),
       d \<lparr> log := log d @ [search_query sp page limit] \<rparr>)"
    using assms by (simp add: pool_query_table exec_search_query P_def)
  have t: "js_Number (if truthy (obj_get (js_index (map (search_row_to_js e n) P) 0) ''total_count'')
        then obj_get (js_index (map (search_row_to_js e n) P) 0) ''total_count'' else JNum 0)
      = Some (if P = [] then 0 else of_nat n)" for n
    by (cases P) (simp_all add: js_index_def obj_get_search_row nat_text_not_empty nat_text_digits
          obj_get_undefined)
  show ?thesis
    unfolding P_def [symmetric]
    by (simp add: searchJobs_def q t Let_def search_job_def obj_get_search_row)
qed

lemma searchJobs_invalid_filter:
  assumes "table d = Some rs" "\<not> valid_filters sp"
  shows "searchJobs e sp page limit d =
     (Inl (DatabaseError CharacterNotInRepertoire),
      d \<lparr> log := log d @ [search_query sp page limit] \<rparr>)"
  using assms by (simp add: searchJobs_def pool_query_table exec_search_query_invalid_filter)

lemma searchJobs_negative_offset:
  assumes "table d = Some rs" "valid_filters sp" "- 9223372036854775808 \<le> limit" "limit \<le> 9223372036854775807" 
    "search_offset page limit < 0" "- 9223372036854775808 \<le> search_offset page limit"
  shows "searchJobs e sp page limit d =
     (Inl (DatabaseError InvalidRowCountInResultOffsetClause),
      d \<lparr> log := log d @ [search_query sp page limit] \<rparr>)"
  using assms by (simp add: searchJobs_def pool_query_table exec_search_query_negative_offset)

subsection \<open>The sample records\<close>

lemma parse_sample_job:
  "JobDetailsSchema_parse (sample_job i ttl cat ex posted) = Inr (sample_details i ttl cat ex posted)"
  by (simp add: JobDetailsSchema_parse_def JobDetailsSchema_issues_def JobDetailsSchema_value_def
      sample_job_def sample_details_def sample_history_def obj_get_def z_string_def z_number_def
      z_boolean_def z_optional_def z_string_array_def ClientHistorySchema_def
      VerificationStatusSchema_def issues_of_def Let_def enumerate_eq_zip upt_rec)

lemma row_of_sample_details:
  assumes "list_all valid_text [i, ttl, cat, ex, posted]"
  shows "row_of_values (insert_values (sample_details i ttl cat ex posted)) =
     Inr (sample_row i ttl cat ex posted)"
proof -
  have fixed: "valid_text ''short''" "valid_text ''long text''" "valid_text ''$500''"
    "valid_text ''NP''" "valid_text ''fixed''" "valid_text ''1 month''" "valid_text ''today''"
    "valid_text ''ts''" "valid_text ''sql''" "valid_text ''jobsPosted''"
    "valid_text ''hireRate''" "valid_text ''totalSpent''" "valid_text ''memberSince''"
    "valid_text ''verificationStatus''" "valid_text ''payment''" "valid_text ''phone''"
    "valid_text ''email''" "valid_text ''$10k+''" "valid_text ''2021''"
    by (simp_all add: valid_text_def)
  show ?thesis
    using assms
    by (simp add: row_of_values_def columns_in_def insert_values_def sample_details_def
        sample_row_def bind_err_def not_null_def text_in_def int4_in_def integer_in_def
        numeric_in_def text_array_in_def jsonb_in_def sql_of_text_opt_def
        sql_of_text_array_opt_def ClientHistory_to_js_def sample_history_def fixed)
qed

lemma bind_err_Inr: "bind_err x f = Inr y \<longleftrightarrow> (\<exists>a. x = Inr a \<and> f a = Inr y)"
  by (cases x) (simp_all add: bind_err_def)

lemma row_of_insert_values_id:
  assumes "row_of_values (insert_values v) = Inr r"
  shows "col_id r = id' v"
proof -
  from assms obtain c0 k where c0: "text_in (SqlText (id' v)) = Inr c0" and "k c0 = Inr r"
    and k: "columns_in (tl (insert_values v)) = Inr k"
    by (auto simp: row_of_values_def insert_values_def bind_err_Inr)
  from k \<open>k c0 = Inr r\<close> have "not_null c0 = Inr (col_id r)"
    by (auto simp: columns_in_def bind_err_Inr)
  with c0 show ?thesis
    by (auto simp: text_in_def not_null_def split: if_splits option.splits)
qed

lemma col_id_sample_row: "col_id (sample_row i ttl cat ex posted) = i"
  by (simp add: sample_row_def)

lemma createJob_sample:
  "list_all valid_text [i, ttl, cat, ex, posted] \<Longrightarrow> i \<notin> set (map col_id rs) \<Longrightarrow>
   createJob e (sample_job i ttl cat ex posted) \<lparr> table = Some rs, log = l \<rparr> =
     (Inr (row_to_js e (sample_row i ttl cat ex posted)),
      \<lparr> table = Some (rs @ [sample_row i ttl cat ex posted]),
        log = l @ [InsertReturning (insert_values (sample_details i ttl cat ex posted))] \<rparr>)"
  by (simp add: createJob_def parse_sample_job pool_query_table row_of_sample_details
      bind_err_def js_index_def col_id_sample_row)

subsection \<open>What \<^verbatim>\<open>getJob\<close> returns\<close>

lemma getJob_found:
  assumes "getJob e i d = (Inr cur, d1)"
  shows "d1 = d \<lparr> log := log d @ [SelectById [SqlText i]] \<rparr>"
proof (cases "table d")
  case None
  with assms show ?thesis
    by (simp add: getJob_def pool_query_no_table)
next
  case (Some rs)
  with assms show ?thesis
    by (cases "valid_text i") (auto simp: getJob_table getJob_invalid_id split: list.splits)
qed

lemma obj_get_null: "obj_get JNull k = JUndefined"
  by (simp add: obj_get_def)

lemma getJob_lacks_longDescription:
  assumes "getJob e i d = (Inr g, d1)"
  shows "obj_get g ''longDescription'' = JUndefined"
proof (cases "table d")
  case None
  with assms show ?thesis
    by (simp add: getJob_def pool_query_no_table)
next
  case (Some rs)
  with assms show ?thesis
    by (cases "valid_text i")
      (auto simp: getJob_table getJob_invalid_id obj_get_spread_other
        obj_get_row_to_js_longDescription obj_get_null split: list.splits)
qed

lemma updateJob_needs_longDescription:
  assumes "table d = Some rs" and "i \<in> set (map col_id rs)"
    and "''longDescription'' \<notin> fst ` set (props patch)" and "valid_text i"
  shows "\<exists>iss. updateJob e i patch d =
           (Inl (ValidationError iss), d \<lparr> log := log d @ [SelectById [SqlText i]] \<rparr>)"
proof -
  from assms(2) obtain r rest where f: "filter (\<lambda>r. col_id r = i) rs = r # rest"
    by (cases "filter (\<lambda>r. col_id r = i) rs") (auto simp: filter_empty_conv)
  define cur where
    "cur = spread (row_to_js e r) (JObj [(''clientHistory'', col_client_history r)])"
  have g: "getJob e i d = (Inr cur, d \<lparr> log := log d @ [SelectById [SqlText i]] \<rparr>)"
    using assms(1,4) f by (simp add: getJob_table cur_def)
  have "obj_get (spread cur patch) ''longDescription'' = JUndefined"
    using assms(3) getJob_lacks_longDescription [OF g] by (simp add: obj_get_spread_other)
  then obtain iss where "JobDetailsSchema_parse (spread cur patch) = Inl iss"
    using parse_needs_longDescription by blast
  moreover have "truthy cur"
    by (simp add: cur_def spread_def)
  ultimately show ?thesis
    using g by (simp add: updateJob_def)
qed

subsection \<open>Pages\<close>

lemma safe_integer_int8:
  "safe_integer n \<Longrightarrow> - 9223372036854775808 \<le> n \<and> n \<le> 9223372036854775807"
  by (simp add: safe_integer_def)

lemma concat_pages:
  "concat (map (\<lambda>p. take L (drop (p * L) xs)) [0..<k]) = take (k * L) xs"
proof (induction k)
  case 0
  show ?case by simp
next
  case (Suc k)
  have "take (Suc k * L) xs = take (k * L) xs @ take L (drop (k * L) xs)"
    using take_add [of "k * L" L xs] by (simp add: add.commute)
  with Suc show ?case by simp
qed

lemma page_count_covers: "0 < limit \<Longrightarrow> n \<le> page_count n limit * nat limit"
proof -
  assume "0 < limit"
  then have L: "0 < nat limit" by simp
  define L where "L = nat limit"
  have "0 < L" using \<open>0 < limit\<close> by (simp add: L_def)
  have "(n + L - 1) div L * L = (n + L - 1) - (n + L - 1) mod L"
    by (simp add: minus_mod_eq_div_mult)
  moreover have "(n + L - 1) mod L \<le> L - 1"
    using \<open>0 < L\<close> by (metis Suc_pred' less_Suc_eq_le mod_less_divisor)
  ultimately have "n \<le> (n + L - 1) div L * L"
    using \<open>0 < L\<close> by linarith
  then show ?thesis by (simp add: page_count_def L_def)
qed

lemma page_count_last: "0 < limit \<Longrightarrow> p < page_count n limit \<Longrightarrow> p * nat limit < n"
proof -
  assume "0 < limit" and p: "p < page_count n limit"
  define L where "L = nat limit"
  have "0 < L" using \<open>0 < limit\<close> by (simp add: L_def)
  from p have "Suc p \<le> (n + L - 1) div L"
    by (simp add: page_count_def L_def)
  then have "Suc p * L \<le> n + L - 1"
    using \<open>0 < L\<close> by (simp add: less_eq_div_iff_mult_less_eq)
  then have "p * L + L \<le> n + L - 1" by simp
  then have "p * L < n" using \<open>0 < L\<close> by linarith
  then show ?thesis by (simp add: L_def)
qed

lemma matching_mset:
  "orders_rows e \<Longrightarrow> mset (matching e sp rs) = mset (filter (row_matches e sp) rs)"
  by (simp add: orders_rows_def matching_def)

lemma matching_set:
  "orders_rows e \<Longrightarrow> set (matching e sp rs) = {r \<in> set rs. row_matches e sp r}"
  using matching_mset [THEN mset_eq_setD] by fastforce

lemma matching_length:
  "orders_rows e \<Longrightarrow> length (matching e sp rs) = length (filter (row_matches e sp) rs)"
  using matching_mset [THEN mset_eq_length] by blast

lemma obj_get_search_job_id: "obj_get (search_job e n r) ''id'' = JStr (col_id r)"
proof -
  have "obj_get (search_job e n r) ''id'' = obj_get (search_row_to_js e n r) ''id''"
    by (simp add: search_job_def obj_get_spread_other)
  also have "\<dots> = JStr (col_id r)"
    by (simp add: obj_get_def search_row_to_js_def row_to_js_def)
  finally show ?thesis .
qed

lemma matching_jobs_distinct:
  assumes "orders_rows e" and "distinct (map col_id rs)"
  shows "distinct (map (search_job e n) (matching e sp rs))"
proof -
  have "distinct (filter (row_matches e sp) rs)"
    using assms(2) by (simp add: distinct_map)
  then have d: "distinct (matching e sp rs)"
    using matching_mset [OF assms(1), THEN mset_eq_imp_distinct_iff] by blast
  have "inj_on col_id (set rs)"
    using assms(2) by (simp add: distinct_map)
  then have "inj_on col_id (set (matching e sp rs))"
    using matching_set [OF assms(1)] by (auto intro: inj_on_subset)
  then have "inj_on (search_job e n) (set (matching e sp rs))"
  proof -
    assume c: "inj_on col_id (set (matching e sp rs))"
    show ?thesis
    proof (rule inj_onI)
      fix x y
      assume x: "x \<in> set (matching e sp rs)" and y: "y \<in> set (matching e sp rs)"
        and eq: "search_job e n x = search_job e n y"
      from eq have "obj_get (search_job e n x) ''id'' = obj_get (search_job e n y) ''id''"
        by simp
      then have "col_id x = col_id y"
        by (simp add: obj_get_search_job_id)
      with c x y show "x = y"
        by (auto dest: inj_onD)
    qed
  qed
  with d show ?thesis
    by (simp add: distinct_map)
qed

lemma searchJobs_page:
  assumes "table d = Some rs" and "valid_filters sp" and "0 \<le> limit" and "safe_integer limit"
    and "0 \<le> search_offset page limit" and "safe_integer (search_offset page limit)"
  shows "page_jobs e sp page limit d =
           map (search_job e (length (matching e sp rs)))
             (take (nat limit) (drop (nat (search_offset page limit)) (matching e sp rs)))"
    and "page_total e sp page limit d =
           Some (if take (nat limit) (drop (nat (search_offset page limit)) (matching e sp rs)) = []
                 then 0 else of_nat (length (matching e sp rs)))"
  using assms safe_integer_int8 [of limit] safe_integer_int8 [of "search_offset page limit"]
  by (simp_all add: page_jobs_def page_total_def searchJobs_ok)

lemma page_jobs_nth:
  assumes "table d = Some rs" and "0 < limit" and "safe_integer limit"
    and "safe_integer (int (length rs))" and "orders_rows e"
    and "p * nat limit < length (matching e sp rs)" and vf: "valid_filters sp"
  shows "page_jobs e sp (int (Suc p)) limit d =
           map (search_job e (length (matching e sp rs)))
             (take (nat limit) (drop (p * nat limit) (matching e sp rs)))"
proof -
  have off: "search_offset (int (Suc p)) limit = int (p * nat limit)"
    using assms(2) by (simp add: search_offset_def)
  have "length (matching e sp rs) \<le> length rs"
    using assms(5) by (simp add: matching_length)
  with assms(6) have hi: "int (p * nat limit) \<le> int (length rs)"
    by linarith
  have lo: "(0::int) \<le> int (p * nat limit)"
    by (rule of_nat_0_le_iff)
  have safe: "safe_integer (int (p * nat limit))"
    unfolding safe_integer_def using lo hi assms(4) [unfolded safe_integer_def] by linarith
  have l0: "0 \<le> limit"
    using assms(2) by simp
  have "page_jobs e sp (int (Suc p)) limit d =
      map (search_job e (length (matching e sp rs)))
        (take (nat limit)
           (drop (nat (search_offset (int (Suc p)) limit)) (matching e sp rs)))"
    by (rule searchJobs_page(1) [OF assms(1) vf l0 assms(3)]) (simp_all only: off lo safe)
  also have "nat (search_offset (int (Suc p)) limit) = p * nat limit"
    unfolding off by (rule nat_int)
  finally show ?thesis .
qed

lemma pages_concat:
  assumes "table d = Some rs" and "0 < limit" and "safe_integer limit"
    and "safe_integer (int (length rs))" and "orders_rows e" and vf: "valid_filters sp"
  shows "concat (map (\<lambda>p. page_jobs e sp (int p) limit d)
            [1..<Suc (page_count (length (matching e sp rs)) limit)]) =
         map (search_job e (length (matching e sp rs))) (matching e sp rs)"
proof -
  let ?M = "matching e sp rs"
  let ?k = "page_count (length ?M) limit"
  let ?f = "search_job e (length ?M)"
  have each: "page_jobs e sp (int (Suc p)) limit d =
        map ?f (take (nat limit) (drop (p * nat limit) ?M))" if "p \<in> set [0..<?k]" for p
  proof -
    from that have "p < ?k" by simp
    then have "p * nat limit < length ?M"
      by (rule page_count_last [OF assms(2)])
    then show ?thesis
      by (rule page_jobs_nth [OF assms(1-5) _ vf])
  qed
  have "map (\<lambda>p. page_jobs e sp (int p) limit d) [1..<Suc ?k] =
        map (\<lambda>p. page_jobs e sp (int p) limit d) (map Suc [0..<?k])"
    by (simp only: map_Suc_upt One_nat_def)
  also have "\<dots> = map (\<lambda>p. page_jobs e sp (int (Suc p)) limit d) [0..<?k]"
    by (simp only: map_map comp_def)
  also have "\<dots> = map (\<lambda>p. map ?f (take (nat limit) (drop (p * nat limit) ?M))) [0..<?k]"
    by (rule map_cong [OF refl]) (rule each)
  finally have "concat (map (\<lambda>p. page_jobs e sp (int p) limit d) [1..<Suc ?k]) =
      map ?f (concat (map (\<lambda>p. take (nat limit) (drop (p * nat limit) ?M)) [0..<?k]))"
    by (simp only: map_concat map_map comp_def)
  also have "\<dots> = map ?f (take (?k * nat limit) ?M)"
    by (simp only: concat_pages)
  also have "\<dots> = map ?f ?M"
    using page_count_covers [OF assms(2), of "length ?M"] by simp
  finally show ?thesis .
qed

subsection \<open>The concrete engine, and the pages of a broader search\<close>

lemma mset_insert_desc: "mset (insert_desc r xs) = add_mset r (mset xs)"
  by (induction xs) simp_all

lemma orders_rows_pg: "orders_rows pg"
proof -
  have "mset (foldr insert_desc rs []) = mset rs" for rs
    by (induction rs) (simp_all add: mset_insert_desc)
  then show ?thesis
    by (simp add: orders_rows_def pg_def sort_desc_def)
qed

lemma all_pages_are_the_matching_rows:
  assumes "table d = Some rs" and "0 < limit" and "safe_integer limit"
    and "safe_integer (int (length rs))" and "orders_rows e" and "valid_filters sp"
  shows "all_pages e sp limit d (match_count e sp rs) =
           map (search_job e (match_count e sp rs)) (matching e sp rs)"
proof -
  have n: "match_count e sp rs = length (matching e sp rs)"
    using assms(5) by (simp add: match_count_def matching_length)
  show ?thesis
    unfolding all_pages_def n by (rule pages_concat [OF assms])
qed

lemma without_total_count_search_job:
  "without_total_count (search_job e n r) = without_total_count (search_job e m r)"
  by (simp add: without_total_count_def search_job_def spread_def search_row_to_js_def
      row_to_js_def)

lemma length_filter_mono:
  "(\<And>x. P x \<Longrightarrow> Q x) \<Longrightarrow> length (filter P xs) \<le> length (filter Q xs)"
  by (induction xs) auto

lemma broader_search_has_the_rows:
  assumes "table d = Some rs" and "0 < limit" and "safe_integer limit"
    and "safe_integer (int (length rs))" and "orders_rows e"
    and "valid_filters sp" and "valid_filters sp'"
    and "\<And>r. row_matches e sp r \<Longrightarrow> row_matches e sp' r"
  shows "without_total_count ` set (all_pages e sp limit d (match_count e sp rs)) \<subseteq>
           without_total_count ` set (all_pages e sp' limit d (match_count e sp' rs)) \<and>
         match_count e sp rs \<le> match_count e sp' rs"
proof
  show "without_total_count ` set (all_pages e sp limit d (match_count e sp rs)) \<subseteq>
      without_total_count ` set (all_pages e sp' limit d (match_count e sp' rs))"
  proof
    fix j
    assume "j \<in> without_total_count ` set (all_pages e sp limit d (match_count e sp rs))"
    then obtain r where r: "r \<in> set (matching e sp rs)"
      and j: "j = without_total_count (search_job e (match_count e sp rs) r)"
      by (auto simp: all_pages_are_the_matching_rows [OF assms(1-6)])
    from r have "r \<in> set (matching e sp' rs)"
      using assms(8) by (auto simp: matching_set [OF assms(5)])
    then have "without_total_count (search_job e (match_count e sp' rs) r)
        \<in> without_total_count ` set (all_pages e sp' limit d (match_count e sp' rs))"
      by (auto simp: all_pages_are_the_matching_rows [OF assms(1-5) assms(7)])
    then show "j \<in> without_total_count ` set (all_pages e sp' limit d (match_count e sp' rs))"
      using j without_total_count_search_job by metis
  qed
  show "match_count e sp rs \<le> match_count e sp' rs"
    unfolding match_count_def by (rule length_filter_mono) (rule assms(8))
qed

section \<open>Reading back what was created\<close>

text \<open>
  Claim C1 (the code departs from it). The claim is that \<^verbatim>\<open>getJob\<close> after \<^verbatim>\<open>createJob\<close>
  returns the record that was created, under its external field names. \<^verbatim>\<open>createJob\<close>
  renames \<open>longDescription\<close>, \<open>jobType\<close>, \<open>weeklyHours\<close> and \<open>activityOn\<close> to their
  columns, and \<^verbatim>\<open>getJob\<close> returns the row under the column names, adding only the key
  \<open>clientHistory\<close>. For the sample job created on an empty table, the object returned has
  no \<open>longDescription\<close>, \<open>jobType\<close> or \<open>activityOn\<close>, its \<open>client_rating\<close> is the
  string \<open>4.5\<close> where the record had the number, and its absent optional arrays are
  \<^verbatim>\<open>null\<close>. (By \<open>getJob_lacks_longDescription\<close> no result of \<^verbatim>\<open>getJob\<close> has a
  \<open>longDescription\<close>, whatever the table holds.)
\<close>

theorem roundtrip_drops_renamed_fields:
  "fst (getJob pg ''j1''
          (snd (createJob pg (sample_job ''j1'' ''A'' ''web'' ''x'' ''t1'') (db_of [])))) =
     Inr (JObj
        [(''id'', JStr ''j1''), (''title'', JStr ''A''),
         (''description'', JStr ''short''),
         (''long_description'', JStr ''long text''),
         (''budget'', JStr ''$500''),
         (''time_posted'', JStr ''t1''),
         (''category'', JStr ''web''), (''expertise'', JStr ''x''),
         (''proposals'', JNum 5), (''client_rating'', JStr ''4.5''),
         (''client_location'', JStr ''NP''), (''job_type'', JStr ''fixed''),
         (''project_length'', JStr ''1 month''), (''weekly_hours'', JNull),
         (''skills'', JArr [JStr ''ts'', JStr ''sql'']),
         (''activity_on'', JStr ''today''),
         (''client_history'', sample_history),
         (''attachments'', JNull), (''questions'', JNull),
         (''clientHistory'', sample_history)]) \<and>
   obj_get (sample_job ''j1'' ''A'' ''web'' ''x'' ''t1'') ''longDescription'' = JStr ''long text'' \<and>
   obj_get (sample_job ''j1'' ''A'' ''web'' ''x'' ''t1'') ''jobType'' = JStr ''fixed'' \<and>
   obj_get (sample_job ''j1'' ''A'' ''web'' ''x'' ''t1'') ''activityOn'' = JStr ''today'' \<and>
   obj_get (sample_job ''j1'' ''A'' ''web'' ''x'' ''t1'') ''client_rating'' = JNum (9 / 2)"
  by code_simp

section \<open>Partial updates\<close>

text \<open>
  Claim C2 (the code departs from it). The claim is that a patch of some fields gives the
  stored record with those fields replaced. \<^verbatim>\<open>updateJob\<close> merges the patch over the
  result of \<^verbatim>\<open>getJob\<close> and parses the merge with the schema; that result has the column
  names, so the merge of a patch that does not itself supply \<open>longDescription\<close> fails the
  schema (\<open>updateJob_needs_longDescription\<close>, for every table, stored row and engine;
  the id of a stored row is a text without the character U+0000).
  For the sample job created on an empty table (title \<open>A\<close>, \<open>proposals = 5\<close>) and the
  patch \<^verbatim>\<open>{proposals: 7}\<close>, \<^verbatim>\<open>updateJob\<close> throws the validation error after its
  \<open>SELECT\<close>, and the row is stored as it was.
\<close>

theorem partial_update_is_rejected:
  "updateJob pg ''j1'' (JObj [(''proposals'', JNum 7)])
     (snd (createJob pg (sample_job ''j1'' ''A'' ''web'' ''x'' ''t1'') (db_of []))) =
     (Inl (ValidationError
        [([''longDescription''], ''string''),
         ([''client_rating''], ''number''), ([''jobType''], ''string''),
         ([''activityOn''], ''string''), ([''attachments''], ''array''),
         ([''questions''], ''array'')]),
      \<lparr> table = Some [sample_row ''j1'' ''A'' ''web'' ''x'' ''t1''],
        log = [InsertReturning (insert_values (sample_details ''j1'' ''A'' ''web'' ''x'' ''t1'')),
               SelectById [SqlText ''j1'']] \<rparr>) \<and>
   col_title (sample_row ''j1'' ''A'' ''web'' ''x'' ''t1'') = ''A'' \<and>
   col_proposals (sample_row ''j1'' ''A'' ''web'' ''x'' ''t1'') = 5"
  by code_simp

text \<open>
  The update goes through when the patch itself supplies, under the schema's names and
  types, what the result of \<^verbatim>\<open>getJob\<close> lacks: then the row is stored with
  \<open>proposals = 7\<close>.
\<close>

lemma update_with_the_renamed_fields_supplied:
  "updateJob pg ''j1''
     (JObj [(''proposals'', JNum 7), (''longDescription'', JStr ''long text''),
            (''jobType'', JStr ''fixed''), (''activityOn'', JStr ''today''),
            (''client_rating'', JNum (9 / 2)), (''attachments'', JUndefined),
            (''questions'', JUndefined)])
     (db_of [sample_row ''j1'' ''A'' ''web'' ''x'' ''t1'']) =
   (Inr (row_to_js pg ((sample_row ''j1'' ''A'' ''web'' ''x'' ''t1'') \<lparr> col_proposals := 7 \<rparr>)),
    \<lparr> table = Some [(sample_row ''j1'' ''A'' ''web'' ''x'' ''t1'') \<lparr> col_proposals := 7 \<rparr>],
      log = [SelectById [SqlText ''j1''],
             UpdateReturning (update_values
               ((sample_details ''j1'' ''A'' ''web'' ''x'' ''t1'') \<lparr> proposals := 7 \<rparr>) ''j1'')] \<rparr>)"
  by code_simp

section \<open>Creating an id twice\<close>

text \<open>
  Claim C3, as the code has it. The claim is that \<^verbatim>\<open>createJob\<close> of an id that is stored
  fails with a duplicate-key error, a kind of its own beside the validation error and the
  storage error. The module has no such kinds: its \<^verbatim>\<open>catch\<close> rewraps a \<^verbatim>\<open>ZodError\<close> and
  rethrows everything else as the backend raised it, and the backend converts the values
  of the \<open>INSERT\<close> before it looks at the primary key. On a table that holds the id
  \<open>j1\<close>, the record of id \<open>j1\<close> with \<open>proposals = 5.5\<close> satisfies the schema, and
  \<^verbatim>\<open>createJob\<close> throws the error of the \<open>INTEGER\<close> column, not the unique violation; with
  a title that contains U+0000 it throws the encoding error. The stored row stays.
\<close>

theorem createJob_stored_id_other_error:
  "JobDetailsSchema_parse
     (spread (sample_job ''j1'' ''B'' ''design'' ''y'' ''t2'') (JObj [(''proposals'', JNum (11 / 2))])) =
     Inr ((sample_details ''j1'' ''B'' ''design'' ''y'' ''t2'') \<lparr> proposals := 11 / 2 \<rparr>) \<and>
   createJob pg
     (spread (sample_job ''j1'' ''B'' ''design'' ''y'' ''t2'') (JObj [(''proposals'', JNum (11 / 2))]))
     (db_of [sample_row ''j1'' ''A'' ''web'' ''x'' ''t1'']) =
     (Inl (DatabaseError InvalidTextRepresentation),
      \<lparr> table = Some [sample_row ''j1'' ''A'' ''web'' ''x'' ''t1''],
        log = [InsertReturning (insert_values
                 ((sample_details ''j1'' ''B'' ''design'' ''y'' ''t2'') \<lparr> proposals := 11 / 2 \<rparr>))] \<rparr>) \<and>
   createJob pg (sample_job ''j1'' [CHR 0x00] ''design'' ''y'' ''t2'')
     (db_of [sample_row ''j1'' ''A'' ''web'' ''x'' ''t1'']) =
     (Inl (DatabaseError CharacterNotInRepertoire),
      \<lparr> table = Some [sample_row ''j1'' ''A'' ''web'' ''x'' ''t1''],
        log = [InsertReturning (insert_values
                 (sample_details ''j1'' [CHR 0x00] ''design'' ''y'' ''t2''))] \<rparr>)"
  by code_simp

text \<open>
  What holds (claim C3, amended), on an initialised table that has a row with the id of a
  record that satisfies the schema: \<^verbatim>\<open>createJob\<close> of the record sends its \<open>INSERT\<close> and
  throws the error of the backend, as the backend raised it. That error is the unique
  violation of the primary key when each value of the record is accepted by its column,
  and otherwise the error of the conversion that refused a value. In both cases the table
  is as it was: the stored row is not overwritten.
\<close>

theorem createJob_duplicate_id:
  assumes "table d = Some rs"
    and "JobDetailsSchema_parse j = Inr v"
    and "id' v \<in> set (map col_id rs)"
  shows "createJob e j d =
           (Inl (DatabaseError
              (case row_of_values (insert_values v) of
                 Inl err \<Rightarrow> err
               | Inr r \<Rightarrow> UniqueViolation)),
            d \<lparr> log := log d @ [InsertReturning (insert_values v)] \<rparr>) \<and>
         table (snd (createJob e j d)) = Some rs"
proof (cases "row_of_values (insert_values v)")
  case (Inl err)
  then have "exec e (InsertReturning (insert_values v)) rs = Inl err"
    by (simp add: bind_err_def)
  with Inl assms(1,2) show ?thesis
    by (simp add: createJob_def pool_query_table)
next
  case (Inr r)
  then have "col_id r \<in> set (map col_id rs)"
    using assms(3) by (simp add: row_of_insert_values_id)
  with Inr have "exec e (InsertReturning (insert_values v)) rs = Inl UniqueViolation"
    by (simp add: bind_err_def)
  with Inr assms(1,2) show ?thesis
    by (simp add: createJob_def pool_query_table)
qed

theorem createJob_duplicate_id_witness:
  "table (snd (createJob pg (sample_job ''j1'' ''A'' ''web'' ''x'' ''t1'') (db_of []))) =
     Some [sample_row ''j1'' ''A'' ''web'' ''x'' ''t1''] \<and>
   JobDetailsSchema_parse (sample_job ''j1'' ''B'' ''design'' ''y'' ''t2'') =
     Inr (sample_details ''j1'' ''B'' ''design'' ''y'' ''t2'') \<and>
   id' (sample_details ''j1'' ''B'' ''design'' ''y'' ''t2'') \<in>
     set (map col_id [sample_row ''j1'' ''A'' ''web'' ''x'' ''t1'']) \<and>
   fst (createJob pg (sample_job ''j1'' ''B'' ''design'' ''y'' ''t2'')
          (snd (createJob pg (sample_job ''j1'' ''A'' ''web'' ''x'' ''t1'') (db_of [])))) =
     Inl (DatabaseError UniqueViolation) \<and>
   table (snd (createJob pg (sample_job ''j1'' ''B'' ''design'' ''y'' ''t2'')
          (snd (createJob pg (sample_job ''j1'' ''A'' ''web'' ''x'' ''t1'') (db_of []))))) =
     Some [sample_row ''j1'' ''A'' ''web'' ''x'' ''t1'']"
proof -
  let ?d = "snd (createJob pg (sample_job ''j1'' ''A'' ''web'' ''x'' ''t1'') (db_of []))"
  have va: "list_all valid_text [''j1'', ''A'', ''web'', ''x'', ''t1'']"
    and vb: "list_all valid_text [''j1'', ''B'', ''design'', ''y'', ''t2'']"
    by (simp_all add: valid_text_def)
  have t: "table ?d = Some [sample_row ''j1'' ''A'' ''web'' ''x'' ''t1'']"
    using va by (simp add: db_of_def createJob_sample)
  have i: "id' (sample_details ''j1'' ''B'' ''design'' ''y'' ''t2'') \<in>
     set (map col_id [sample_row ''j1'' ''A'' ''web'' ''x'' ''t1''])"
    by (simp add: sample_details_def sample_row_def)
  note th = createJob_duplicate_id [OF t parse_sample_job i, of pg,
      unfolded row_of_sample_details [OF vb] sum.case]
  from th [THEN conjunct1]
  have c1: "fst (createJob pg (sample_job ''j1'' ''B'' ''design'' ''y'' ''t2'') ?d) =
      Inl (DatabaseError UniqueViolation)"
    by simp
  have c2: "table (snd (createJob pg (sample_job ''j1'' ''B'' ''design'' ''y'' ''t2'') ?d)) =
      Some [sample_row ''j1'' ''A'' ''web'' ''x'' ''t1'']"
    by (rule th [THEN conjunct2])
  show ?thesis
    by (intro conjI t parse_sample_job i c1 c2)
qed

text \<open>
  Whatever \<^verbatim>\<open>createJob\<close> is given, the rows of the table stay as they are; at most one
  row is added, with an id that no row had.
\<close>

lemma createJob_never_overwrites:
  assumes "table d = Some rs"
  shows "table (snd (createJob e j d)) = Some rs \<or>
         (\<exists>r. table (snd (createJob e j d)) = Some (rs @ [r]) \<and> col_id r \<notin> set (map col_id rs))"
  using assms
  by (auto simp: createJob_def pool_query_table bind_err_def split: sum.splits if_splits)

section \<open>The offset of a page\<close>

text \<open>
  Claim C4, as the code has it. The claim is that \<open>offset = (page - 1) * limit\<close> and
  that a page below 1 is treated as page 1. \<^verbatim>\<open>searchJobs\<close> computes the offset from the
  page as it is given: for page 0 and limit 10 the offset is \<open>-10\<close>, the engine refuses
  a negative \<open>OFFSET\<close>, and the call throws that error where page 1 returns the row.
\<close>

theorem page_zero_is_rejected:
  "search_offset 0 10 = - 10 \<and>
   fst (searchJobs pg \<lparr> sp_category = None, sp_search = None, sp_expertise = None \<rparr> 0 10
          (db_of [sample_row ''j1'' ''A'' ''web'' ''x'' ''t1''])) =
     Inl (DatabaseError InvalidRowCountInResultOffsetClause) \<and>
   page_total pg \<lparr> sp_category = None, sp_search = None, sp_expertise = None \<rparr> 1 10
          (db_of [sample_row ''j1'' ''A'' ''web'' ''x'' ''t1'']) = Some 1 \<and>
   length (page_jobs pg \<lparr> sp_category = None, sp_search = None, sp_expertise = None \<rparr> 1 10
          (db_of [sample_row ''j1'' ''A'' ''web'' ''x'' ''t1''])) = 1"
  by code_simp

text \<open>
  What holds (claim C4, amended), on an initialised table, for a limit that is not negative
  and for a page, a limit and an offset that are safe integers: the offset is
  \<open>(page - 1) * limit\<close>. When no filter text has the character U+0000: for a page from 1
  on the offset is not negative and \<^verbatim>\<open>jobs\<close> are the matching rows, in the engine's order,
  after the first \<open>offset\<close> of them and at most \<open>limit\<close> of them; for a page below 1 and
  a positive limit the offset is negative and the call throws the engine's error for a
  negative \<open>OFFSET\<close>. When a filter text has the character U+0000, the call throws the
  engine's encoding error, whatever the page is.
\<close>

theorem searchJobs_offset:
  assumes "table d = Some rs" and "0 \<le> limit"
    and "safe_integer page" and "safe_integer limit" and "safe_integer (search_offset page limit)"
  shows "search_offset page limit = (page - 1) * limit \<and>
         (valid_filters sp \<and> 1 \<le> page \<longrightarrow>
            0 \<le> search_offset page limit \<and>
            (\<exists>res. fst (searchJobs e sp page limit d) = Inr res \<and>
               jobs res = map (search_job e (length (matching e sp rs)))
                 (take (nat limit) (drop (nat ((page - 1) * limit)) (matching e sp rs))))) \<and>
         (valid_filters sp \<and> page < 1 \<and> 0 < limit \<longrightarrow>
            search_offset page limit < 0 \<and>
            fst (searchJobs e sp page limit d) =
              Inl (DatabaseError InvalidRowCountInResultOffsetClause)) \<and>
         (\<not> valid_filters sp \<longrightarrow>
            fst (searchJobs e sp page limit d) = Inl (DatabaseError CharacterNotInRepertoire))"
proof (intro conjI impI)
  show "search_offset page limit = (page - 1) * limit"
    by (simp add: search_offset_def)
next
  assume a: "valid_filters sp \<and> 1 \<le> page"
  with assms(2) show nn: "0 \<le> search_offset page limit"
    by (simp add: search_offset_def)
  from a have vf: "valid_filters sp"
    by simp
  show "\<exists>res. fst (searchJobs e sp page limit d) = Inr res \<and>
      jobs res = map (search_job e (length (matching e sp rs)))
        (take (nat limit) (drop (nat ((page - 1) * limit)) (matching e sp rs)))"
    using assms vf nn safe_integer_int8 [of limit] safe_integer_int8 [of "search_offset page limit"]
    by (simp add: searchJobs_ok) (simp add: search_offset_def)
next
  assume a: "valid_filters sp \<and> page < 1 \<and> 0 < limit"
  then show neg: "search_offset page limit < 0"
    by (simp add: search_offset_def mult_neg_pos)
  from a have vf: "valid_filters sp"
    by simp
  show "fst (searchJobs e sp page limit d) =
      Inl (DatabaseError InvalidRowCountInResultOffsetClause)"
    using assms vf neg safe_integer_int8 [of limit] safe_integer_int8 [of "search_offset page limit"]
    by (simp add: searchJobs_negative_offset)
next
  assume "\<not> valid_filters sp"
  with assms(1) show "fst (searchJobs e sp page limit d) =
      Inl (DatabaseError CharacterNotInRepertoire)"
    by (simp add: searchJobs_invalid_filter)
qed

theorem searchJobs_offset_witness:
  "table (db_of [sample_row ''j1'' ''A'' ''web'' ''x'' ''t1'', sample_row ''j2'' ''B'' ''web'' ''y'' ''t2'']) =
     Some [sample_row ''j1'' ''A'' ''web'' ''x'' ''t1'', sample_row ''j2'' ''B'' ''web'' ''y'' ''t2''] \<and>
   (0::int) \<le> 1 \<and> safe_integer 2 \<and> safe_integer 1 \<and> safe_integer (search_offset 2 1) \<and>
   valid_filters \<lparr> sp_category = None, sp_search = None, sp_expertise = None \<rparr> \<and>
   search_offset 2 1 = 1 \<and>
   page_jobs pg \<lparr> sp_category = None, sp_search = None, sp_expertise = None \<rparr> 2 1
     (db_of [sample_row ''j1'' ''A'' ''web'' ''x'' ''t1'', sample_row ''j2'' ''B'' ''web'' ''y'' ''t2'']) =
     [search_job pg 2 (sample_row ''j1'' ''A'' ''web'' ''x'' ''t1'')] \<and>
   safe_integer 0 \<and> safe_integer (search_offset 0 1) \<and>
   fst (searchJobs pg \<lparr> sp_category = None, sp_search = None, sp_expertise = None \<rparr> 0 1
     (db_of [sample_row ''j1'' ''A'' ''web'' ''x'' ''t1'', sample_row ''j2'' ''B'' ''web'' ''y'' ''t2''])) =
     Inl (DatabaseError InvalidRowCountInResultOffsetClause) \<and>
   \<not> valid_filters \<lparr> sp_category = Some [CHR 0x00], sp_search = None, sp_expertise = None \<rparr> \<and>
   fst (searchJobs pg \<lparr> sp_category = Some [CHR 0x00], sp_search = None, sp_expertise = None \<rparr> 2 1
     (db_of [sample_row ''j1'' ''A'' ''web'' ''x'' ''t1'', sample_row ''j2'' ''B'' ''web'' ''y'' ''t2''])) =
     Inl (DatabaseError CharacterNotInRepertoire)"
proof -
  let ?rs = "[sample_row ''j1'' ''A'' ''web'' ''x'' ''t1'', sample_row ''j2'' ''B'' ''web'' ''y'' ''t2'']"
  let ?all = "\<lparr> sp_category = None, sp_search = None, sp_expertise = None \<rparr>"
  let ?nul = "\<lparr> sp_category = Some [CHR 0x00], sp_search = None, sp_expertise = None \<rparr>"
  have t: "table (db_of ?rs) = Some ?rs"
    by (simp add: db_of_def)
  have l: "(0::int) \<le> 1"
    by simp
  have s2: "safe_integer 2" and s1: "safe_integer 1" and s0: "safe_integer 0"
    by (simp_all add: safe_integer_def)
  have o2: "search_offset 2 1 = 1" and o0: "search_offset 0 1 = - 1"
    by (simp_all add: search_offset_def)
  have so2: "safe_integer (search_offset 2 1)" and so0: "safe_integer (search_offset 0 1)"
    by (simp_all add: o2 o0 safe_integer_def)
  have vf: "valid_filters ?all"
    by (simp add: valid_filters_def filter_text_def valid_text_def)
  have nvf: "\<not> valid_filters ?nul"
    by (simp add: valid_filters_def filter_text_def valid_text_def)
  have m: "matching pg ?all ?rs =
      [sample_row ''j2'' ''B'' ''web'' ''y'' ''t2'', sample_row ''j1'' ''A'' ''web'' ''x'' ''t1'']"
    by code_simp
  note th2 = searchJobs_offset [OF t l s2 s1 so2, of ?all pg]
  note th0 = searchJobs_offset [OF t l s0 s1 so0, of ?all pg]
  note thn = searchJobs_offset [OF t l s2 s1 so2, of ?nul pg]
  from th2 vf have c2: "page_jobs pg ?all 2 1 (db_of ?rs) =
      [search_job pg 2 (sample_row ''j1'' ''A'' ''web'' ''x'' ''t1'')]"
    unfolding m by (auto simp: page_jobs_def numeral_2_eq_2)
  from th0 vf have c0: "fst (searchJobs pg ?all 0 1 (db_of ?rs)) =
      Inl (DatabaseError InvalidRowCountInResultOffsetClause)"
    by simp
  from thn nvf have cn: "fst (searchJobs pg ?nul 2 1 (db_of ?rs)) =
      Inl (DatabaseError CharacterNotInRepertoire)"
    by blast
  show ?thesis
    by (intro conjI t l s2 s1 so2 vf o2 c2 s0 so0 c0 nvf cn)
qed

section \<open>The total and the pages\<close>

text \<open>
  Claim C5, as the code has it. The claim is that \<^verbatim>\<open>total\<close> is the number \<open>N\<close> of
  matches on every page, also past the last page that has rows. \<^verbatim>\<open>total\<close> is read from
  the column \<open>total_count\<close> of the first row returned, with 0 when there is none: with two
  matches and limit 1, the pages 1 and 2 report 2 and page 3 reports 0.
\<close>

theorem total_past_the_last_page:
  "page_total pg \<lparr> sp_category = Some ''web'', sp_search = None, sp_expertise = None \<rparr> 1 1
     (db_of [sample_row ''j1'' ''A'' ''web'' ''x'' ''t1'', sample_row ''j2'' ''B'' ''web'' ''y'' ''t2'',
             sample_row ''j3'' ''C'' ''art'' ''y'' ''t3'']) = Some 2 \<and>
   page_total pg \<lparr> sp_category = Some ''web'', sp_search = None, sp_expertise = None \<rparr> 2 1
     (db_of [sample_row ''j1'' ''A'' ''web'' ''x'' ''t1'', sample_row ''j2'' ''B'' ''web'' ''y'' ''t2'',
             sample_row ''j3'' ''C'' ''art'' ''y'' ''t3'']) = Some 2 \<and>
   page_total pg \<lparr> sp_category = Some ''web'', sp_search = None, sp_expertise = None \<rparr> 3 1
     (db_of [sample_row ''j1'' ''A'' ''web'' ''x'' ''t1'', sample_row ''j2'' ''B'' ''web'' ''y'' ''t2'',
             sample_row ''j3'' ''C'' ''art'' ''y'' ''t3'']) = Some 0 \<and>
   fst (searchJobs pg \<lparr> sp_category = Some ''web'', sp_search = None, sp_expertise = None \<rparr> 3 1
     (db_of [sample_row ''j1'' ''A'' ''web'' ''x'' ''t1'', sample_row ''j2'' ''B'' ''web'' ''y'' ''t2'',
             sample_row ''j3'' ''C'' ''art'' ''y'' ''t3''])) = Inr \<lparr> jobs = [], total = Some 0 \<rparr>"
  by code_simp

text \<open>
  The order among rows of equal \<open>time_posted\<close> is the engine's to choose at each
  execution. When two executions choose differently, a row can be on two pages: below, the
  row \<open>j1\<close> is page 1 under one order and page 2 under the other.
\<close>

lemma pages_overlap_when_ties_are_ordered_differently:
  "map (\<lambda>j. obj_get j ''id'')
     (page_jobs pg \<lparr> sp_category = None, sp_search = None, sp_expertise = None \<rparr> 1 1
        (db_of [sample_row ''j1'' ''A'' ''web'' ''x'' ''t'', sample_row ''j2'' ''B'' ''web'' ''y'' ''t''])) =
     [JStr ''j1''] \<and>
   map (\<lambda>j. obj_get j ''id'')
     (page_jobs pg_rev_ties \<lparr> sp_category = None, sp_search = None, sp_expertise = None \<rparr> 2 1
        (db_of [sample_row ''j1'' ''A'' ''web'' ''x'' ''t'', sample_row ''j2'' ''B'' ''web'' ''y'' ''t''])) =
     [JStr ''j1'']"
  by code_simp

text \<open>
  What holds (claim C5, amended), on an initialised table whose ids are distinct, for
  filter texts without the character U+0000, a positive limit (limit and table size safe
  integers) and an engine that orders the rows the same way at every execution: with \<open>N\<close> the number of matching rows, a page from 1
  on reports \<open>total = N\<close> when its offset is below \<open>N\<close> (it has a row) and
  \<open>total = 0\<close> otherwise; the \<^verbatim>\<open>jobs\<close> of the pages 1 to \<open>ceil (N / limit)\<close>, one after
  the other, are the matching rows in the engine's order, so they are \<open>N\<close> in number,
  no job is on two pages, and every matching row is on one.
\<close>

theorem pagination_consistency:
  assumes "table d = Some rs" and "0 < limit" and "safe_integer limit"
    and "safe_integer (int (length rs))" and "orders_rows e" and "distinct (map col_id rs)"
    and "valid_filters sp"
  shows "(\<forall>page. 1 \<le> page \<and> safe_integer (search_offset page limit) \<longrightarrow>
            page_total e sp page limit d =
              Some (if search_offset page limit < int (match_count e sp rs)
                    then of_nat (match_count e sp rs) else 0)) \<and>
         all_pages e sp limit d (match_count e sp rs) =
           map (search_job e (match_count e sp rs)) (matching e sp rs) \<and>
         set (matching e sp rs) = {r \<in> set rs. row_matches e sp r} \<and>
         length (all_pages e sp limit d (match_count e sp rs)) = match_count e sp rs \<and>
         distinct (all_pages e sp limit d (match_count e sp rs))"
proof -
  have n: "match_count e sp rs = length (matching e sp rs)"
    using assms(5) by (simp add: match_count_def matching_length)
  have pages: "all_pages e sp limit d (match_count e sp rs) =
           map (search_job e (match_count e sp rs)) (matching e sp rs)"
    unfolding all_pages_def n by (rule pages_concat [OF assms(1-5) assms(7)])
  have tot: "page_total e sp page limit d =
              Some (if search_offset page limit < int (match_count e sp rs)
                    then of_nat (match_count e sp rs) else 0)"
    if "1 \<le> page \<and> safe_integer (search_offset page limit)" for page
  proof -
    from that assms(2) have nn: "0 \<le> search_offset page limit"
      by (simp add: search_offset_def)
    have l0: "0 \<le> limit" using assms(2) by simp
    have e: "(take (nat limit) (drop (nat (search_offset page limit)) (matching e sp rs)) = []) =
        (\<not> search_offset page limit < int (length (matching e sp rs)))"
      using assms(2) nn by (auto simp: take_eq_Nil)
    from that have "safe_integer (search_offset page limit)"
      by simp
    then have "page_total e sp page limit d =
        Some (if take (nat limit) (drop (nat (search_offset page limit)) (matching e sp rs)) = []
              then 0 else of_nat (length (matching e sp rs)))"
      by (rule searchJobs_page(2) [OF assms(1) assms(7) l0 assms(3) nn])
    then show ?thesis
      unfolding n e by simp
  qed
  show ?thesis
    using tot pages matching_set [OF assms(5)] matching_jobs_distinct [OF assms(5,6)]
    by (simp add: n)
qed

theorem pagination_consistency_witness:
  "table (db_of [sample_row ''j1'' ''A'' ''web'' ''x'' ''t1'', sample_row ''j2'' ''B'' ''web'' ''y'' ''t2'',
                 sample_row ''j3'' ''C'' ''art'' ''y'' ''t3'']) =
     Some [sample_row ''j1'' ''A'' ''web'' ''x'' ''t1'', sample_row ''j2'' ''B'' ''web'' ''y'' ''t2'',
           sample_row ''j3'' ''C'' ''art'' ''y'' ''t3''] \<and>
   (0::int) < 1 \<and> safe_integer 1 \<and>
   safe_integer (int (length [sample_row ''j1'' ''A'' ''web'' ''x'' ''t1'',
                              sample_row ''j2'' ''B'' ''web'' ''y'' ''t2'',
                              sample_row ''j3'' ''C'' ''art'' ''y'' ''t3''])) \<and>
   orders_rows pg \<and>
   distinct (map col_id [sample_row ''j1'' ''A'' ''web'' ''x'' ''t1'',
                         sample_row ''j2'' ''B'' ''web'' ''y'' ''t2'',
                         sample_row ''j3'' ''C'' ''art'' ''y'' ''t3'']) \<and>
   valid_filters \<lparr> sp_category = Some ''web'', sp_search = None, sp_expertise = None \<rparr> \<and>
   page_total pg \<lparr> sp_category = Some ''web'', sp_search = None, sp_expertise = None \<rparr> 2 1
     (db_of [sample_row ''j1'' ''A'' ''web'' ''x'' ''t1'', sample_row ''j2'' ''B'' ''web'' ''y'' ''t2'',
             sample_row ''j3'' ''C'' ''art'' ''y'' ''t3'']) = Some 2 \<and>
   page_total pg \<lparr> sp_category = Some ''web'', sp_search = None, sp_expertise = None \<rparr> 3 1
     (db_of [sample_row ''j1'' ''A'' ''web'' ''x'' ''t1'', sample_row ''j2'' ''B'' ''web'' ''y'' ''t2'',
             sample_row ''j3'' ''C'' ''art'' ''y'' ''t3'']) = Some 0 \<and>
   all_pages pg \<lparr> sp_category = Some ''web'', sp_search = None, sp_expertise = None \<rparr> 1
     (db_of [sample_row ''j1'' ''A'' ''web'' ''x'' ''t1'', sample_row ''j2'' ''B'' ''web'' ''y'' ''t2'',
             sample_row ''j3'' ''C'' ''art'' ''y'' ''t3'']) 2 =
     [search_job pg 2 (sample_row ''j2'' ''B'' ''web'' ''y'' ''t2''),
      search_job pg 2 (sample_row ''j1'' ''A'' ''web'' ''x'' ''t1'')] \<and>
   distinct (all_pages pg \<lparr> sp_category = Some ''web'', sp_search = None, sp_expertise = None \<rparr> 1
     (db_of [sample_row ''j1'' ''A'' ''web'' ''x'' ''t1'', sample_row ''j2'' ''B'' ''web'' ''y'' ''t2'',
             sample_row ''j3'' ''C'' ''art'' ''y'' ''t3'']) 2)"
proof -
  let ?rs = "[sample_row ''j1'' ''A'' ''web'' ''x'' ''t1'', sample_row ''j2'' ''B'' ''web'' ''y'' ''t2'',
              sample_row ''j3'' ''C'' ''art'' ''y'' ''t3'']"
  let ?web = "\<lparr> sp_category = Some ''web'', sp_search = None, sp_expertise = None \<rparr>"
  have t: "table (db_of ?rs) = Some ?rs"
    by (simp add: db_of_def)
  have l: "(0::int) < 1"
    by simp
  have s1: "safe_integer 1"
    by (simp add: safe_integer_def)
  have sl: "safe_integer (int (length ?rs))"
    by (simp add: safe_integer_def)
  have dist: "distinct (map col_id ?rs)"
    by (simp add: col_id_sample_row)
  have vf: "valid_filters ?web"
    by (simp add: valid_filters_def filter_text_def valid_text_def)
  have mc: "match_count pg ?web ?rs = 2"
    by code_simp
  have m: "matching pg ?web ?rs =
      [sample_row ''j2'' ''B'' ''web'' ''y'' ''t2'', sample_row ''j1'' ''A'' ''web'' ''x'' ''t1'']"
    by code_simp
  note th = pagination_consistency [OF t l s1 sl orders_rows_pg dist vf, unfolded mc m]
  have p2: "1 \<le> (2::int) \<and> safe_integer (search_offset 2 1)"
    and p3: "1 \<le> (3::int) \<and> safe_integer (search_offset 3 1)"
    by (simp_all add: search_offset_def safe_integer_def)
  from th p2 have c1: "page_total pg ?web 2 1 (db_of ?rs) = Some 2"
    by (auto simp: search_offset_def)
  from th p3 have c2: "page_total pg ?web 3 1 (db_of ?rs) = Some 0"
    by (auto simp: search_offset_def)
  from th have c3: "all_pages pg ?web 1 (db_of ?rs) 2 =
     [search_job pg 2 (sample_row ''j2'' ''B'' ''web'' ''y'' ''t2''),
      search_job pg 2 (sample_row ''j1'' ''A'' ''web'' ''x'' ''t1'')]"
    by simp
  from th have c4: "distinct (all_pages pg ?web 1 (db_of ?rs) 2)"
    by blast
  show ?thesis
    by (intro conjI t l s1 sl orders_rows_pg dist vf c1 c2 c3 c4)
qed

section \<open>Updating an id that is not stored\<close>

text \<open>
  Claim C6, as the code has it. The claim is that \<^verbatim>\<open>updateJob(id, patch)\<close> returns
  \<^verbatim>\<open>null\<close> without an error for every id that is not stored. \<^verbatim>\<open>updateJob\<close> binds the id
  as it is given to the \<open>SELECT\<close> of \<^verbatim>\<open>getJob\<close> and has no \<^verbatim>\<open>catch\<close>: an id with the
  character U+0000, which no row has, is refused by the backend, and the call throws that
  error where it returns \<^verbatim>\<open>null\<close> for the id \<open>nonexistent\<close>.
\<close>

theorem updateJob_missing_id_throws:
  "[CHR 0x00] \<notin> set (map col_id [sample_row ''j1'' ''A'' ''web'' ''x'' ''t1'']) \<and>
   updateJob pg [CHR 0x00] (JObj [(''proposals'', JNum 7)])
       (db_of [sample_row ''j1'' ''A'' ''web'' ''x'' ''t1'']) =
     (Inl (DatabaseError CharacterNotInRepertoire),
      \<lparr> table = Some [sample_row ''j1'' ''A'' ''web'' ''x'' ''t1''],
        log = [SelectById [SqlText [CHR 0x00]]] \<rparr>) \<and>
   updateJob pg ''nonexistent'' (JObj [(''proposals'', JNum 7)])
       (db_of [sample_row ''j1'' ''A'' ''web'' ''x'' ''t1'']) =
     (Inr JNull,
      \<lparr> table = Some [sample_row ''j1'' ''A'' ''web'' ''x'' ''t1''],
        log = [SelectById [SqlText ''nonexistent'']] \<rparr>)"
  by code_simp

text \<open>
  What holds (claim C6, amended), on an initialised table, for an id that no row has and
  for every patch: when the id has no character U+0000, \<^verbatim>\<open>updateJob\<close> returns \<^verbatim>\<open>null\<close>
  without throwing; when it has one, \<^verbatim>\<open>updateJob\<close> throws the encoding error of the
  backend. In both cases the only statement sent is the \<open>SELECT\<close> of \<^verbatim>\<open>getJob\<close>, and the
  table is as it was.
\<close>

theorem updateJob_missing_id:
  assumes "table d = Some rs" and "i \<notin> set (map col_id rs)"
  shows "updateJob e i patch d =
           (if valid_text i then Inr JNull else Inl (DatabaseError CharacterNotInRepertoire),
            d \<lparr> log := log d @ [SelectById [SqlText i]] \<rparr>) \<and>
         table (snd (updateJob e i patch d)) = Some rs"
proof (cases "valid_text i")
  case True
  from assms(2) have "filter (\<lambda>r. col_id r = i) rs = []"
    by (auto simp: filter_empty_conv)
  with assms(1) True show ?thesis
    by (simp add: updateJob_def getJob_table)
next
  case False
  with assms(1) show ?thesis
    by (simp add: updateJob_def getJob_invalid_id)
qed

theorem updateJob_missing_id_witness:
  "table (db_of [sample_row ''j1'' ''A'' ''web'' ''x'' ''t1'']) =
     Some [sample_row ''j1'' ''A'' ''web'' ''x'' ''t1''] \<and>
   ''j9'' \<notin> set (map col_id [sample_row ''j1'' ''A'' ''web'' ''x'' ''t1'']) \<and>
   valid_text ''j9'' \<and>
   updateJob pg ''j9'' (JObj [(''title'', JStr ''Z'')])
       (db_of [sample_row ''j1'' ''A'' ''web'' ''x'' ''t1'']) =
     (Inr JNull, \<lparr> table = Some [sample_row ''j1'' ''A'' ''web'' ''x'' ''t1''],
                   log = [SelectById [SqlText ''j9'']] \<rparr>) \<and>
   ''j'' @ [CHR 0x00] \<notin> set (map col_id [sample_row ''j1'' ''A'' ''web'' ''x'' ''t1'']) \<and>
   \<not> valid_text (''j'' @ [CHR 0x00]) \<and>
   updateJob pg (''j'' @ [CHR 0x00]) (JObj [(''title'', JStr ''Z'')])
       (db_of [sample_row ''j1'' ''A'' ''web'' ''x'' ''t1'']) =
     (Inl (DatabaseError CharacterNotInRepertoire),
      \<lparr> table = Some [sample_row ''j1'' ''A'' ''web'' ''x'' ''t1''],
        log = [SelectById [SqlText (''j'' @ [CHR 0x00])]] \<rparr>)"
proof -
  let ?rs = "[sample_row ''j1'' ''A'' ''web'' ''x'' ''t1'']"
  have t: "table (db_of ?rs) = Some ?rs"
    by (simp add: db_of_def)
  have n1: "''j9'' \<notin> set (map col_id ?rs)"
    and n2: "''j'' @ [CHR 0x00] \<notin> set (map col_id ?rs)"
    by (simp_all add: sample_row_def)
  have v1: "valid_text ''j9''" and v2: "\<not> valid_text (''j'' @ [CHR 0x00])"
    by (simp_all add: valid_text_def)
  from updateJob_missing_id [OF t n1, of pg "JObj [(''title'', JStr ''Z'')]"] v1
  have c1: "updateJob pg ''j9'' (JObj [(''title'', JStr ''Z'')]) (db_of ?rs) =
      (Inr JNull, \<lparr> table = Some ?rs, log = [SelectById [SqlText ''j9'']] \<rparr>)"
    by (simp add: db_of_def)
  from updateJob_missing_id [OF t n2, of pg "JObj [(''title'', JStr ''Z'')]"] v2
  have c2: "updateJob pg (''j'' @ [CHR 0x00]) (JObj [(''title'', JStr ''Z'')]) (db_of ?rs) =
      (Inl (DatabaseError CharacterNotInRepertoire),
       \<lparr> table = Some ?rs, log = [SelectById [SqlText (''j'' @ [CHR 0x00])]] \<rparr>)"
    by (simp add: db_of_def)
  show ?thesis
    by (intro conjI t n1 v1 c1 n2 v2 c2)
qed

section \<open>Filters are conjoined\<close>

text \<open>
  Claim C7, as the code has it. The claim is that a search with a category and an
  expertise returns exactly the records that match both, and that a search without one of
  its filters returns a superset. \<^verbatim>\<open>searchJobs\<close> returns one page of at most \<open>limit\<close>
  rows, the newest first, and binds the filter texts as they are given. On a table of
  three rows and with limit 1, the search for \<open>web\<close> and \<open>x\<close> has two matches and
  returns \<open>j2\<close> alone; the search for \<open>x\<close> alone returns \<open>j3\<close>, which is not a superset.
  With a category that has the character U+0000 the search throws the encoding error of
  the backend.
\<close>

theorem page_of_a_broader_search:
  "match_count pg \<lparr> sp_category = Some ''web'', sp_search = None, sp_expertise = Some ''x'' \<rparr>
     [sample_row ''j1'' ''A'' ''web'' ''x'' ''t1'', sample_row ''j2'' ''B'' ''web'' ''x'' ''t2'',
      sample_row ''j3'' ''C'' ''art'' ''x'' ''t3''] = 2 \<and>
   map (\<lambda>j. obj_get j ''id'')
     (page_jobs pg \<lparr> sp_category = Some ''web'', sp_search = None, sp_expertise = Some ''x'' \<rparr> 1 1
        (db_of [sample_row ''j1'' ''A'' ''web'' ''x'' ''t1'', sample_row ''j2'' ''B'' ''web'' ''x'' ''t2'',
                sample_row ''j3'' ''C'' ''art'' ''x'' ''t3''])) = [JStr ''j2''] \<and>
   map (\<lambda>j. obj_get j ''id'')
     (page_jobs pg \<lparr> sp_category = None, sp_search = None, sp_expertise = Some ''x'' \<rparr> 1 1
        (db_of [sample_row ''j1'' ''A'' ''web'' ''x'' ''t1'', sample_row ''j2'' ''B'' ''web'' ''x'' ''t2'',
                sample_row ''j3'' ''C'' ''art'' ''x'' ''t3''])) = [JStr ''j3''] \<and>
   fst (searchJobs pg
          \<lparr> sp_category = Some [CHR 0x00], sp_search = None, sp_expertise = Some ''x'' \<rparr> 1 10
        (db_of [sample_row ''j1'' ''A'' ''web'' ''x'' ''t1'', sample_row ''j2'' ''B'' ''web'' ''x'' ''t2'',
                sample_row ''j3'' ''C'' ''art'' ''x'' ''t3''])) =
     Inl (DatabaseError CharacterNotInRepertoire)"
  by code_simp

text \<open>
  What holds (claim C7, amended), on an initialised table, for an engine that orders the
  rows it is given, a positive limit (limit and table size safe integers) and filter texts
  without the character U+0000. For a category and an expertise that are not empty (an
  empty filter counts as absent, see claim C10): each page from 1 on holds only rows that
  have that category and that expertise, the pages 1 to \<open>ceil (N / limit)\<close> together hold
  exactly those rows, \<open>N\<close> being their number, and page 1 reports \<open>total = N\<close>. For
  every set of filters, leaving one of the three out broadens the result: the pages of the
  search without the filter together hold each job that the pages of the search with the
  filter hold (the same object but for \<open>total_count\<close>, the size of the result it is part
  of), and the number of matches does not go down.
\<close>

theorem search_filters_conjoin:
  assumes "table d = Some rs" and "0 < limit" and "safe_integer limit"
    and "safe_integer (int (length rs))" and "orders_rows e" and "valid_filters sp"
  shows "(cat \<noteq> [] \<and> ex \<noteq> [] \<and> valid_text cat \<and> valid_text ex \<longrightarrow>
            (\<forall>page. 1 \<le> page \<and> safe_integer (search_offset page limit) \<longrightarrow>
               set (page_jobs e \<lparr> sp_category = Some cat, sp_search = None, sp_expertise = Some ex \<rparr>
                      page limit d) \<subseteq>
                 search_job e
                     (length (filter (\<lambda>r. col_category r = cat \<and> col_expertise r = ex) rs)) `
                   {r \<in> set rs. col_category r = cat \<and> col_expertise r = ex}) \<and>
            all_pages e \<lparr> sp_category = Some cat, sp_search = None, sp_expertise = Some ex \<rparr>
                limit d (length (filter (\<lambda>r. col_category r = cat \<and> col_expertise r = ex) rs)) =
              map (search_job e
                     (length (filter (\<lambda>r. col_category r = cat \<and> col_expertise r = ex) rs)))
                (order_by_time_posted_desc e
                   (filter (\<lambda>r. col_category r = cat \<and> col_expertise r = ex) rs)) \<and>
            set (order_by_time_posted_desc e
                   (filter (\<lambda>r. col_category r = cat \<and> col_expertise r = ex) rs)) =
              {r \<in> set rs. col_category r = cat \<and> col_expertise r = ex} \<and>
            page_total e \<lparr> sp_category = Some cat, sp_search = None, sp_expertise = Some ex \<rparr>
                1 limit d =
              Some (of_nat
                (length (filter (\<lambda>r. col_category r = cat \<and> col_expertise r = ex) rs)))) \<and>
         without_total_count ` set (all_pages e sp limit d (match_count e sp rs)) \<subseteq>
           without_total_count `
             set (all_pages e (sp \<lparr> sp_category := None \<rparr>) limit d
                    (match_count e (sp \<lparr> sp_category := None \<rparr>) rs)) \<and>
         match_count e sp rs \<le> match_count e (sp \<lparr> sp_category := None \<rparr>) rs \<and>
         without_total_count ` set (all_pages e sp limit d (match_count e sp rs)) \<subseteq>
           without_total_count `
             set (all_pages e (sp \<lparr> sp_search := None \<rparr>) limit d
                    (match_count e (sp \<lparr> sp_search := None \<rparr>) rs)) \<and>
         match_count e sp rs \<le> match_count e (sp \<lparr> sp_search := None \<rparr>) rs \<and>
         without_total_count ` set (all_pages e sp limit d (match_count e sp rs)) \<subseteq>
           without_total_count `
             set (all_pages e (sp \<lparr> sp_expertise := None \<rparr>) limit d
                    (match_count e (sp \<lparr> sp_expertise := None \<rparr>) rs)) \<and>
         match_count e sp rs \<le> match_count e (sp \<lparr> sp_expertise := None \<rparr>) rs"
proof -
  let ?both = "\<lparr> sp_category = Some cat, sp_search = None, sp_expertise = Some ex \<rparr>"
  let ?B = "filter (\<lambda>r. col_category r = cat \<and> col_expertise r = ex) rs"
  have l0: "0 \<le> limit"
    using assms(2) by simp
  have both: "(\<forall>page. 1 \<le> page \<and> safe_integer (search_offset page limit) \<longrightarrow>
        set (page_jobs e ?both page limit d) \<subseteq>
          search_job e (length ?B) ` {r \<in> set rs. col_category r = cat \<and> col_expertise r = ex}) \<and>
      all_pages e ?both limit d (length ?B) =
        map (search_job e (length ?B)) (order_by_time_posted_desc e ?B) \<and>
      set (order_by_time_posted_desc e ?B) =
        {r \<in> set rs. col_category r = cat \<and> col_expertise r = ex} \<and>
      page_total e ?both 1 limit d = Some (of_nat (length ?B))"
    if ne: "cat \<noteq> [] \<and> ex \<noteq> [] \<and> valid_text cat \<and> valid_text ex"
  proof -
    from ne have rm: "row_matches e ?both = (\<lambda>r. col_category r = cat \<and> col_expertise r = ex)"
      by (auto simp: row_matches_def supplied_def filter_text_def)
    then have m: "matching e ?both rs = order_by_time_posted_desc e ?B"
      by (simp add: matching_def)
    have mc: "match_count e ?both rs = length ?B"
      by (simp add: match_count_def rm)
    have len: "length (matching e ?both rs) = length ?B"
      using matching_length [OF assms(5), of ?both rs] by (simp add: rm)
    from ne have vf: "valid_filters ?both"
      by (simp add: valid_filters_def filter_text_def valid_text_def)
    have st: "set (matching e ?both rs) = {r \<in> set rs. col_category r = cat \<and> col_expertise r = ex}"
      using matching_set [OF assms(5), of ?both rs] by (simp add: rm)
    have pages: "set (page_jobs e ?both page limit d) \<subseteq>
          search_job e (length ?B) ` {r \<in> set rs. col_category r = cat \<and> col_expertise r = ex}"
      if p: "1 \<le> page \<and> safe_integer (search_offset page limit)" for page
    proof -
      from p assms(2) have nn: "0 \<le> search_offset page limit"
        by (simp add: search_offset_def)
      from p have so: "safe_integer (search_offset page limit)"
        by simp
      have "page_jobs e ?both page limit d =
          map (search_job e (length (matching e ?both rs)))
            (take (nat limit) (drop (nat (search_offset page limit)) (matching e ?both rs)))"
        by (rule searchJobs_page(1) [OF assms(1) vf l0 assms(3) nn so])
      then have "set (page_jobs e ?both page limit d) \<subseteq>
          search_job e (length ?B) ` set (matching e ?both rs)"
        unfolding len by (auto dest!: in_set_takeD in_set_dropD)
      then show ?thesis
        unfolding st .
    qed
    have ap: "all_pages e ?both limit d (length ?B) =
        map (search_job e (length ?B)) (order_by_time_posted_desc e ?B)"
      using all_pages_are_the_matching_rows [OF assms(1-5) vf] unfolding mc m .
    have o0: "search_offset 1 limit = 0"
      by (simp add: search_offset_def)
    have s0: "safe_integer (search_offset 1 limit)"
      by (simp add: o0 safe_integer_def)
    have "page_total e ?both 1 limit d =
        Some (if take (nat limit) (drop (nat (search_offset 1 limit)) (matching e ?both rs)) = []
              then 0 else of_nat (length (matching e ?both rs)))"
      by (rule searchJobs_page(2) [OF assms(1) vf l0 assms(3) _ s0]) (simp add: o0)
    then have tot: "page_total e ?both 1 limit d = Some (of_nat (length ?B))"
      using assms(2) len by (auto simp: o0 take_eq_Nil)
    show ?thesis
    proof (intro conjI allI impI)
      fix page
      assume "1 \<le> page \<and> safe_integer (search_offset page limit)"
      then show "set (page_jobs e ?both page limit d) \<subseteq>
          search_job e (length ?B) ` {r \<in> set rs. col_category r = cat \<and> col_expertise r = ex}"
        by (rule pages)
    next
      show "all_pages e ?both limit d (length ?B) =
          map (search_job e (length ?B)) (order_by_time_posted_desc e ?B)"
        by (rule ap)
    next
      show "set (order_by_time_posted_desc e ?B) =
          {r \<in> set rs. col_category r = cat \<and> col_expertise r = ex}"
        using st unfolding m .
    next
      show "page_total e ?both 1 limit d = Some (of_nat (length ?B))"
        by (rule tot)
    qed
  qed
  have v1: "valid_filters (sp \<lparr> sp_category := None \<rparr>)"
    and v2: "valid_filters (sp \<lparr> sp_search := None \<rparr>)"
    and v3: "valid_filters (sp \<lparr> sp_expertise := None \<rparr>)"
    using assms(6) by (simp_all add: valid_filters_def filter_text_def valid_text_def)
  have b1: "without_total_count ` set (all_pages e sp limit d (match_count e sp rs)) \<subseteq>
      without_total_count ` set (all_pages e (sp \<lparr> sp_category := None \<rparr>) limit d
        (match_count e (sp \<lparr> sp_category := None \<rparr>) rs)) \<and>
      match_count e sp rs \<le> match_count e (sp \<lparr> sp_category := None \<rparr>) rs"
    by (rule broader_search_has_the_rows [OF assms v1])
      (auto simp: row_matches_def supplied_def split: if_splits)
  have b2: "without_total_count ` set (all_pages e sp limit d (match_count e sp rs)) \<subseteq>
      without_total_count ` set (all_pages e (sp \<lparr> sp_search := None \<rparr>) limit d
        (match_count e (sp \<lparr> sp_search := None \<rparr>) rs)) \<and>
      match_count e sp rs \<le> match_count e (sp \<lparr> sp_search := None \<rparr>) rs"
    by (rule broader_search_has_the_rows [OF assms v2])
      (auto simp: row_matches_def supplied_def split: if_splits)
  have b3: "without_total_count ` set (all_pages e sp limit d (match_count e sp rs)) \<subseteq>
      without_total_count ` set (all_pages e (sp \<lparr> sp_expertise := None \<rparr>) limit d
        (match_count e (sp \<lparr> sp_expertise := None \<rparr>) rs)) \<and>
      match_count e sp rs \<le> match_count e (sp \<lparr> sp_expertise := None \<rparr>) rs"
    by (rule broader_search_has_the_rows [OF assms v3])
      (auto simp: row_matches_def supplied_def split: if_splits)
  show ?thesis
    by (rule conjI, rule impI, erule both)
      (intro conjI b1 [THEN conjunct1] b1 [THEN conjunct2] b2 [THEN conjunct1]
        b2 [THEN conjunct2] b3 [THEN conjunct1] b3 [THEN conjunct2])
qed

theorem search_filters_conjoin_witness:
  "table (db_of [sample_row ''j1'' ''A'' ''web'' ''x'' ''t1'', sample_row ''j2'' ''B'' ''web'' ''x'' ''t2'',
                 sample_row ''j3'' ''C'' ''art'' ''x'' ''t3'', sample_row ''j4'' ''D'' ''web'' ''y'' ''t4'']) =
     Some [sample_row ''j1'' ''A'' ''web'' ''x'' ''t1'', sample_row ''j2'' ''B'' ''web'' ''x'' ''t2'',
           sample_row ''j3'' ''C'' ''art'' ''x'' ''t3'', sample_row ''j4'' ''D'' ''web'' ''y'' ''t4''] \<and>
   (0::int) < 1 \<and> safe_integer 1 \<and>
   safe_integer (int (length
     [sample_row ''j1'' ''A'' ''web'' ''x'' ''t1'', sample_row ''j2'' ''B'' ''web'' ''x'' ''t2'',
      sample_row ''j3'' ''C'' ''art'' ''x'' ''t3'', sample_row ''j4'' ''D'' ''web'' ''y'' ''t4''])) \<and>
   orders_rows pg \<and>
   valid_filters \<lparr> sp_category = Some ''web'', sp_search = None, sp_expertise = Some ''x'' \<rparr> \<and>
   ''web'' \<noteq> [] \<and> ''x'' \<noteq> [] \<and> valid_text ''web'' \<and> valid_text ''x'' \<and>
   (1::int) \<le> 2 \<and> safe_integer (search_offset 2 1) \<and>
   set (page_jobs pg \<lparr> sp_category = Some ''web'', sp_search = None, sp_expertise = Some ''x'' \<rparr> 2 1
     (db_of [sample_row ''j1'' ''A'' ''web'' ''x'' ''t1'', sample_row ''j2'' ''B'' ''web'' ''x'' ''t2'',
             sample_row ''j3'' ''C'' ''art'' ''x'' ''t3'', sample_row ''j4'' ''D'' ''web'' ''y'' ''t4''])) \<subseteq>
     search_job pg 2 `
       {r \<in> set [sample_row ''j1'' ''A'' ''web'' ''x'' ''t1'', sample_row ''j2'' ''B'' ''web'' ''x'' ''t2'',
                 sample_row ''j3'' ''C'' ''art'' ''x'' ''t3'', sample_row ''j4'' ''D'' ''web'' ''y'' ''t4''].
          col_category r = ''web'' \<and> col_expertise r = ''x''} \<and>
   all_pages pg \<lparr> sp_category = Some ''web'', sp_search = None, sp_expertise = Some ''x'' \<rparr> 1
     (db_of [sample_row ''j1'' ''A'' ''web'' ''x'' ''t1'', sample_row ''j2'' ''B'' ''web'' ''x'' ''t2'',
             sample_row ''j3'' ''C'' ''art'' ''x'' ''t3'', sample_row ''j4'' ''D'' ''web'' ''y'' ''t4'']) 2 =
     [search_job pg 2 (sample_row ''j2'' ''B'' ''web'' ''x'' ''t2''),
      search_job pg 2 (sample_row ''j1'' ''A'' ''web'' ''x'' ''t1'')] \<and>
   page_total pg \<lparr> sp_category = Some ''web'', sp_search = None, sp_expertise = Some ''x'' \<rparr> 1 1
     (db_of [sample_row ''j1'' ''A'' ''web'' ''x'' ''t1'', sample_row ''j2'' ''B'' ''web'' ''x'' ''t2'',
             sample_row ''j3'' ''C'' ''art'' ''x'' ''t3'', sample_row ''j4'' ''D'' ''web'' ''y'' ''t4'']) =
     Some 2 \<and>
   without_total_count `
     set (all_pages pg \<lparr> sp_category = Some ''web'', sp_search = None, sp_expertise = Some ''x'' \<rparr> 1
       (db_of [sample_row ''j1'' ''A'' ''web'' ''x'' ''t1'', sample_row ''j2'' ''B'' ''web'' ''x'' ''t2'',
               sample_row ''j3'' ''C'' ''art'' ''x'' ''t3'', sample_row ''j4'' ''D'' ''web'' ''y'' ''t4'']) 2) \<subseteq>
   without_total_count `
     set (all_pages pg \<lparr> sp_category = None, sp_search = None, sp_expertise = Some ''x'' \<rparr> 1
       (db_of [sample_row ''j1'' ''A'' ''web'' ''x'' ''t1'', sample_row ''j2'' ''B'' ''web'' ''x'' ''t2'',
               sample_row ''j3'' ''C'' ''art'' ''x'' ''t3'', sample_row ''j4'' ''D'' ''web'' ''y'' ''t4'']) 3)"
proof -
  let ?rs = "[sample_row ''j1'' ''A'' ''web'' ''x'' ''t1'', sample_row ''j2'' ''B'' ''web'' ''x'' ''t2'',
           sample_row ''j3'' ''C'' ''art'' ''x'' ''t3'', sample_row ''j4'' ''D'' ''web'' ''y'' ''t4'']"
  let ?both = "\<lparr> sp_category = Some ''web'', sp_search = None, sp_expertise = Some ''x'' \<rparr>"
  let ?x = "\<lparr> sp_category = None, sp_search = None, sp_expertise = Some ''x'' \<rparr>"
  have t: "table (db_of ?rs) = Some ?rs"
    by (simp add: db_of_def)
  have l: "(0::int) < 1"
    by simp
  have s1: "safe_integer 1"
    by (simp add: safe_integer_def)
  have sl: "safe_integer (int (length ?rs))"
    by (simp add: safe_integer_def)
  have vf: "valid_filters ?both"
    by (simp add: valid_filters_def filter_text_def valid_text_def)
  have ne1: "''web'' \<noteq> []" and ne2: "''x'' \<noteq> []"
    by simp_all
  have vt1: "valid_text ''web''" and vt2: "valid_text ''x''"
    by (simp_all add: valid_text_def)
  have p1: "(1::int) \<le> 2"
    by simp
  have p2: "safe_integer (search_offset 2 1)"
    by (simp add: search_offset_def safe_integer_def)
  have f: "filter (\<lambda>r. col_category r = ''web'' \<and> col_expertise r = ''x'') ?rs =
      [sample_row ''j1'' ''A'' ''web'' ''x'' ''t1'', sample_row ''j2'' ''B'' ''web'' ''x'' ''t2'']"
    by (simp add: sample_row_def)
  have b: "order_by_time_posted_desc pg
        [sample_row ''j1'' ''A'' ''web'' ''x'' ''t1'', sample_row ''j2'' ''B'' ''web'' ''x'' ''t2''] =
      [sample_row ''j2'' ''B'' ''web'' ''x'' ''t2'', sample_row ''j1'' ''A'' ''web'' ''x'' ''t1'']"
    by code_simp
  have n: "length [sample_row ''j1'' ''A'' ''web'' ''x'' ''t1'',
                   sample_row ''j2'' ''B'' ''web'' ''x'' ''t2''] = 2"
    by simp
  have mb: "match_count pg ?both ?rs = 2" and mx: "match_count pg ?x ?rs = 3"
    by code_simp+
  have u: "?both \<lparr> sp_category := None \<rparr> = ?x"
    by simp
  note th = search_filters_conjoin [OF t l s1 sl orders_rows_pg vf, of "''web''" "''x''",
      unfolded f b n mb u mx]
  have h: "''web'' \<noteq> [] \<and> ''x'' \<noteq> [] \<and> valid_text ''web'' \<and> valid_text ''x''"
    by (intro conjI ne1 ne2 vt1 vt2)
  note th1 = th [THEN conjunct1, THEN mp, OF h]
  have c1: "set (page_jobs pg ?both 2 1 (db_of ?rs)) \<subseteq>
      search_job pg 2 ` {r \<in> set ?rs. col_category r = ''web'' \<and> col_expertise r = ''x''}"
    by (rule th1 [THEN conjunct1, THEN spec, THEN mp]) (intro conjI p1 p2)
  have c2: "all_pages pg ?both 1 (db_of ?rs) 2 =
      [search_job pg 2 (sample_row ''j2'' ''B'' ''web'' ''x'' ''t2''),
       search_job pg 2 (sample_row ''j1'' ''A'' ''web'' ''x'' ''t1'')]"
    using th1 [THEN conjunct2, THEN conjunct1] by simp
  have c3: "page_total pg ?both 1 1 (db_of ?rs) = Some 2"
    using th1 [THEN conjunct2, THEN conjunct2, THEN conjunct2] by simp
  have c4: "without_total_count ` set (all_pages pg ?both 1 (db_of ?rs) 2) \<subseteq>
      without_total_count ` set (all_pages pg ?x 1 (db_of ?rs) 3)"
    by (rule th [THEN conjunct2, THEN conjunct1])
  show ?thesis
    by (intro conjI t l s1 sl orders_rows_pg vf ne1 ne2 vt1 vt2 p1 p2 c1 c2 c3 c4)
qed

section \<open>Validation and the statements sent\<close>

text \<open>
  Claim C8, as the code has it. The claim is that \<^verbatim>\<open>createJob\<close> and \<^verbatim>\<open>updateJob\<close> throw
  the validation error before any SQL statement is sent. \<^verbatim>\<open>updateJob\<close> first reads the
  current record with \<^verbatim>\<open>getJob\<close>, so one \<open>SELECT\<close> has been sent when it validates the
  merge, and for an id that is not stored it returns \<^verbatim>\<open>null\<close> without validating at all:
\<close>

theorem updateJob_reads_before_validating:
  "log (db_of [sample_row ''j1'' ''A'' ''web'' ''x'' ''t1'']) = [] \<and>
   updateJob pg ''j1'' (JObj [(''title'', JNum 3)])
       (db_of [sample_row ''j1'' ''A'' ''web'' ''x'' ''t1'']) =
     (Inl (ValidationError
        [([''title''], ''string''), ([''longDescription''], ''string''),
         ([''client_rating''], ''number''), ([''jobType''], ''string''),
         ([''activityOn''], ''string''), ([''attachments''], ''array''),
         ([''questions''], ''array'')]),
      \<lparr> table = Some [sample_row ''j1'' ''A'' ''web'' ''x'' ''t1''],
        log = [SelectById [SqlText ''j1'']] \<rparr>) \<and>
   updateJob pg ''j7'' (JObj [(''title'', JNum 3)])
       (db_of [sample_row ''j1'' ''A'' ''web'' ''x'' ''t1'']) =
     (Inr JNull,
      \<lparr> table = Some [sample_row ''j1'' ''A'' ''web'' ''x'' ''t1''],
        log = [SelectById [SqlText ''j7'']] \<rparr>)"
  by code_simp

text \<open>
  What holds (claim C8, amended): \<^verbatim>\<open>createJob\<close> of a record that fails the schema throws
  the validation error with no statement sent, the backend being exactly as before.
  \<^verbatim>\<open>updateJob\<close> of a stored id whose merged record fails the schema throws the validation
  error after the \<open>SELECT\<close> of \<^verbatim>\<open>getJob\<close> and before any write: the backend differs from
  before only by that \<open>SELECT\<close> in its log.
\<close>

theorem validation_before_any_write:
  "(JobDetailsSchema_parse j = Inl iss \<longrightarrow>
      createJob e j d = (Inl (ValidationError iss), d)) \<and>
   (getJob e i d = (Inr cur, d1) \<and> truthy cur \<and>
    JobDetailsSchema_parse (spread cur patch) = Inl iss' \<longrightarrow>
      updateJob e i patch d =
        (Inl (ValidationError iss'), d \<lparr> log := log d @ [SelectById [SqlText i]] \<rparr>))"
proof (intro conjI impI)
  assume "JobDetailsSchema_parse j = Inl iss"
  then show "createJob e j d = (Inl (ValidationError iss), d)"
    by (simp add: createJob_def)
next
  assume a: "getJob e i d = (Inr cur, d1) \<and> truthy cur \<and>
    JobDetailsSchema_parse (spread cur patch) = Inl iss'"
  then have "getJob e i d = (Inr cur, d1)"
    by simp
  then have "d1 = d \<lparr> log := log d @ [SelectById [SqlText i]] \<rparr>"
    by (rule getJob_found)
  with a show "updateJob e i patch d =
        (Inl (ValidationError iss'), d \<lparr> log := log d @ [SelectById [SqlText i]] \<rparr>)"
    by (simp add: updateJob_def)
qed

theorem validation_before_any_write_witness:
  "JobDetailsSchema_parse (JObj ((''title'', JNum 3) # props (sample_job ''j2'' ''B'' ''web'' ''x'' ''t2''))) =
     Inl [([''title''], ''string'')] \<and>
   createJob pg (JObj ((''title'', JNum 3) # props (sample_job ''j2'' ''B'' ''web'' ''x'' ''t2'')))
       (db_of [sample_row ''j1'' ''A'' ''web'' ''x'' ''t1'']) =
     (Inl (ValidationError [([''title''], ''string'')]),
      db_of [sample_row ''j1'' ''A'' ''web'' ''x'' ''t1'']) \<and>
   getJob pg ''j1'' (db_of [sample_row ''j1'' ''A'' ''web'' ''x'' ''t1'']) =
     (Inr sample_current,
      \<lparr> table = Some [sample_row ''j1'' ''A'' ''web'' ''x'' ''t1''],
        log = [SelectById [SqlText ''j1'']] \<rparr>) \<and>
   truthy sample_current \<and>
   JobDetailsSchema_parse (spread sample_current (JObj [(''title'', JNum 3)])) =
     Inl [([''title''], ''string''), ([''longDescription''], ''string''),
          ([''client_rating''], ''number''), ([''jobType''], ''string''),
          ([''activityOn''], ''string''), ([''attachments''], ''array''),
          ([''questions''], ''array'')] \<and>
   updateJob pg ''j1'' (JObj [(''title'', JNum 3)])
       (db_of [sample_row ''j1'' ''A'' ''web'' ''x'' ''t1'']) =
     (Inl (ValidationError
        [([''title''], ''string''), ([''longDescription''], ''string''),
         ([''client_rating''], ''number''), ([''jobType''], ''string''),
         ([''activityOn''], ''string''), ([''attachments''], ''array''),
         ([''questions''], ''array'')]),
      \<lparr> table = Some [sample_row ''j1'' ''A'' ''web'' ''x'' ''t1''],
        log = [SelectById [SqlText ''j1'']] \<rparr>)"
proof -
  have h1: "JobDetailsSchema_parse (JObj ((''title'', JNum 3) # props (sample_job ''j2'' ''B'' ''web'' ''x'' ''t2''))) =
     Inl [([''title''], ''string'')]"
    by code_simp
  have h2: "getJob pg ''j1'' (db_of [sample_row ''j1'' ''A'' ''web'' ''x'' ''t1'']) =
     (Inr sample_current,
      \<lparr> table = Some [sample_row ''j1'' ''A'' ''web'' ''x'' ''t1''],
        log = [SelectById [SqlText ''j1'']] \<rparr>)"
    by code_simp
  have h3: "truthy sample_current"
    by (simp add: sample_current_def)
  have h4: "JobDetailsSchema_parse (spread sample_current (JObj [(''title'', JNum 3)])) =
     Inl [([''title''], ''string''), ([''longDescription''], ''string''),
          ([''client_rating''], ''number''), ([''jobType''], ''string''),
          ([''activityOn''], ''string''), ([''attachments''], ''array''),
          ([''questions''], ''array'')]"
    by code_simp
  show ?thesis
    using validation_before_any_write
      [of "JObj ((''title'', JNum 3) # props (sample_job ''j2'' ''B'' ''web'' ''x'' ''t2''))"
          "[([''title''], ''string'')]" pg "db_of [sample_row ''j1'' ''A'' ''web'' ''x'' ''t1'']"
          "''j1''" sample_current
          "\<lparr> table = Some [sample_row ''j1'' ''A'' ''web'' ''x'' ''t1''],
             log = [SelectById [SqlText ''j1'']] \<rparr>"
          "JObj [(''title'', JNum 3)]"
          "[([''title''], ''string''), ([''longDescription''], ''string''),
          ([''client_rating''], ''number''), ([''jobType''], ''string''),
          ([''activityOn''], ''string''), ([''attachments''], ''array''),
          ([''questions''], ''array'')]"]
      h1 h2 h3 h4
    by (simp add: db_of_def)
qed

section \<open>Deleting\<close>

text \<open>
  Claim C9, as the code has it. The claim is that \<^verbatim>\<open>deleteJob(id)\<close> returns a boolean for
  every id and that deleting a missing id is never an error. \<^verbatim>\<open>deleteJob\<close> binds the id
  as it is given to its \<open>DELETE\<close> and has no \<^verbatim>\<open>catch\<close>: an id with the character U+0000,
  which no row has, is refused by the backend, and the call throws that error where it
  returns \<^verbatim>\<open>false\<close> for the id \<open>j9\<close>.
\<close>

theorem deleteJob_missing_id_throws:
  "[CHR 0x00] \<notin> set (map col_id [sample_row ''j1'' ''A'' ''web'' ''x'' ''t1'']) \<and>
   deleteJob pg [CHR 0x00] (db_of [sample_row ''j1'' ''A'' ''web'' ''x'' ''t1'']) =
     (Inl (DatabaseError CharacterNotInRepertoire),
      \<lparr> table = Some [sample_row ''j1'' ''A'' ''web'' ''x'' ''t1''],
        log = [DeleteReturningId [SqlText [CHR 0x00]]] \<rparr>) \<and>
   deleteJob pg ''j9'' (db_of [sample_row ''j1'' ''A'' ''web'' ''x'' ''t1'']) =
     (Inr False,
      \<lparr> table = Some [sample_row ''j1'' ''A'' ''web'' ''x'' ''t1''],
        log = [DeleteReturningId [SqlText ''j9'']] \<rparr>)"
  by code_simp

text \<open>
  What holds (claim C9, amended), on an initialised table. For an id without the character
  U+0000, \<^verbatim>\<open>deleteJob(id)\<close> does not throw: it returns \<^verbatim>\<open>true\<close> exactly when a row with
  that id was in the table, no row with that id is left afterwards (the other rows stay),
  and a second \<^verbatim>\<open>deleteJob\<close> of the same id returns \<^verbatim>\<open>false\<close>. For an id with the
  character U+0000, \<^verbatim>\<open>deleteJob(id)\<close> throws the encoding error of the backend, the
  first time and the second, and the table is as it was.
\<close>

theorem deleteJob_reports_removal:
  assumes "table d = Some rs"
  shows "fst (deleteJob e i d) =
           (if valid_text i then Inr (i \<in> set (map col_id rs))
            else Inl (DatabaseError CharacterNotInRepertoire)) \<and>
         table (snd (deleteJob e i d)) =
           Some (if valid_text i then filter (\<lambda>r. col_id r \<noteq> i) rs else rs) \<and>
         fst (deleteJob e i (snd (deleteJob e i d))) =
           (if valid_text i then Inr False else Inl (DatabaseError CharacterNotInRepertoire))"
proof (cases "valid_text i")
  case True
  have f: "filter (\<lambda>r. i = col_id r) rs = filter (\<lambda>r. col_id r = i) rs" for rs :: "row list"
    by (rule filter_cong) auto
  have g: "filter (\<lambda>r. i \<noteq> col_id r) rs = filter (\<lambda>r. col_id r \<noteq> i) rs" for rs :: "row list"
    by (rule filter_cong) auto
  have first: "deleteJob e i d =
      (Inr (i \<in> set (map col_id rs)),
       \<lparr> table = Some (filter (\<lambda>r. col_id r \<noteq> i) rs),
         log = log d @ [DeleteReturningId [SqlText i]] \<rparr>)" if "table d = Some rs" for d rs
    using that True
    by (auto simp: deleteJob_def pool_query_table text_in_def bind_err_def f g filter_empty_conv)
  show ?thesis
    using assms True by (auto simp: first)
next
  case False
  have first: "deleteJob e i d =
      (Inl (DatabaseError CharacterNotInRepertoire),
       d \<lparr> log := log d @ [DeleteReturningId [SqlText i]] \<rparr>)" if "table d = Some rs" for d rs
    using that False
    by (simp add: deleteJob_def pool_query_table text_in_def bind_err_def)
  show ?thesis
    using assms False by (simp add: first)
qed

theorem deleteJob_reports_removal_witness:
  "table (db_of [sample_row ''j1'' ''A'' ''web'' ''x'' ''t1'',
                 sample_row ''j2'' ''B'' ''web'' ''y'' ''t2''])
     = Some [sample_row ''j1'' ''A'' ''web'' ''x'' ''t1'',
             sample_row ''j2'' ''B'' ''web'' ''y'' ''t2''] \<and>
   valid_text ''j1'' \<and>
   fst (deleteJob pg ''j1'' (db_of [sample_row ''j1'' ''A'' ''web'' ''x'' ''t1'',
                                    sample_row ''j2'' ''B'' ''web'' ''y'' ''t2''])) = Inr True \<and>
   table (snd (deleteJob pg ''j1'' (db_of [sample_row ''j1'' ''A'' ''web'' ''x'' ''t1'',
                                           sample_row ''j2'' ''B'' ''web'' ''y'' ''t2''])))
     = Some [sample_row ''j2'' ''B'' ''web'' ''y'' ''t2''] \<and>
   fst (deleteJob pg ''j1''
          (snd (deleteJob pg ''j1'' (db_of [sample_row ''j1'' ''A'' ''web'' ''x'' ''t1'',
                                            sample_row ''j2'' ''B'' ''web'' ''y'' ''t2''])))) =
     Inr False \<and>
   \<not> valid_text (''j'' @ [CHR 0x00]) \<and>
   fst (deleteJob pg (''j'' @ [CHR 0x00])
          (db_of [sample_row ''j1'' ''A'' ''web'' ''x'' ''t1'',
                  sample_row ''j2'' ''B'' ''web'' ''y'' ''t2''])) =
     Inl (DatabaseError CharacterNotInRepertoire) \<and>
   table (snd (deleteJob pg (''j'' @ [CHR 0x00])
          (db_of [sample_row ''j1'' ''A'' ''web'' ''x'' ''t1'',
                  sample_row ''j2'' ''B'' ''web'' ''y'' ''t2''])))
     = Some [sample_row ''j1'' ''A'' ''web'' ''x'' ''t1'',
             sample_row ''j2'' ''B'' ''web'' ''y'' ''t2'']"
proof -
  let ?rs = "[sample_row ''j1'' ''A'' ''web'' ''x'' ''t1'',
              sample_row ''j2'' ''B'' ''web'' ''y'' ''t2'']"
  have t: "table (db_of ?rs) = Some ?rs"
    by (simp add: db_of_def)
  have v1: "valid_text ''j1''" and v2: "\<not> valid_text (''j'' @ [CHR 0x00])"
    by (simp_all add: valid_text_def)
  note th1 = deleteJob_reports_removal [OF t, of pg "''j1''"]
  note th2 = deleteJob_reports_removal [OF t, of pg "''j'' @ [CHR 0x00]"]
  from th1 v1 have c1: "fst (deleteJob pg ''j1'' (db_of ?rs)) = Inr True"
    by (simp add: sample_row_def)
  from th1 v1 have c2: "table (snd (deleteJob pg ''j1'' (db_of ?rs))) =
      Some [sample_row ''j2'' ''B'' ''web'' ''y'' ''t2'']"
    by (simp add: sample_row_def)
  from th1 v1 have c3: "fst (deleteJob pg ''j1'' (snd (deleteJob pg ''j1'' (db_of ?rs)))) =
      Inr False"
    by simp
  from th2 v2 have c4: "fst (deleteJob pg (''j'' @ [CHR 0x00]) (db_of ?rs)) =
      Inl (DatabaseError CharacterNotInRepertoire)"
    by simp
  from th2 v2 have c5: "table (snd (deleteJob pg (''j'' @ [CHR 0x00]) (db_of ?rs))) = Some ?rs"
    by simp
  show ?thesis
    by (intro conjI t v1 c1 c2 c3 v2 c4 c5)
qed

section \<open>Empty filters\<close>




end
